theory Spec2Isabelle
  imports Complex_Main "HOL-Library.Log_Nat" "HOL-Library.Word"
begin

section \<open>Sustainable Cloth Recyclability Analysis: the rule engine of cloth_recyclability_gui.py\<close>

text \<open>
  The program is one Python module. Its computational core is \<open>analyze_image\<close> and
  \<open>ai_cloth_analysis\<close>; \<open>run_analysis\<close> is the button callback that validates the
  inputs, shows the result and appends a row to the SQLite table \<open>analysis_history\<close>.
  This theory embeds these functions, the table \<open>TEXTILE_DATA\<close>, and as much of the
  surrounding state (the global \<open>image_path\<close>, the selected textile, the result
  text, the table) as the callback reads or writes.
\<close>

subsection \<open>Python floats\<close>

text \<open>
  A Python \<open>float\<close> is an IEEE 754 binary64 number. A finite one is represented here by
  its exact value, a rational. Every arithmetic operation of the program computes the exact
  result and rounds it to the nearest number with a 53-bit significand, ties to the even
  significand; \<open>round_double\<close> is this rounding. All numbers of this program lie
  between \<open>2 ^ -20\<close> and \<open>2 ^ 10\<close> in magnitude or are zero, far inside the
  normal range of binary64, so neither overflow nor gradual underflow is modelled.
\<close>

type_synonym float64 = rat

definition round_half_even :: "rat \<Rightarrow> int" where
  "round_half_even x =
     (let f = \<lfloor>x\<rfloor>; d = x - of_int f
      in if d < 1 / 2 then f
         else if 1 / 2 < d then f + 1
         else if even f then f else f + 1)"

text \<open>For \<open>x > 0\<close>, \<open>binade x\<close> is the exponent \<open>e\<close> with \<open>2 ^ e \<le> x < 2 ^ (e + 1)\<close>.\<close>

definition binade :: "rat \<Rightarrow> int" where
  "binade x = (if 1 \<le> x then bitlen \<lfloor>x\<rfloor> - 1 else - bitlen (\<lceil>1 / x\<rceil> - 1))"

definition round_double :: "rat \<Rightarrow> float64" where
  "round_double x =
     (if x = 0 then 0
      else let u = power_int 2 (binade \<bar>x\<bar> - 52)
           in sgn x * of_int (round_half_even (\<bar>x\<bar> / u)) * u)"

text \<open>
  The decimal literal with digits \<open>m\<close> and \<open>d\<close> places after the point: \<open>0.8\<close> is
  \<open>float_lit 8 1\<close>, \<open>1.0\<close> is \<open>float_lit 10 1\<close>. Python reads a literal as the
  nearest binary64 number.
\<close>

definition float_lit :: "int \<Rightarrow> int \<Rightarrow> float64" where
  "float_lit m d = round_double (of_int m / power_int 10 d)"

definition float_mul :: "float64 \<Rightarrow> float64 \<Rightarrow> float64" where
  "float_mul a b = round_double (a * b)"

definition float_div :: "float64 \<Rightarrow> float64 \<Rightarrow> float64" where
  "float_div a b = round_double (a / b)"

subsection \<open>Exceptions\<close>

text \<open>
  The exceptions the callback can meet. \<open>ImageError\<close> stands for whatever
  \<open>Image.open(...).convert("L")\<close> raises on a path that is not a decodable image
  (\<open>FileNotFoundError\<close>, \<open>UnidentifiedImageError\<close>, \<open>OSError\<close>);
  \<open>DatabaseError\<close> for what \<open>cur.execute\<close> raises.
\<close>

datatype py_error = ValueError | KeyError | NameError | ImageError | DatabaseError

subsection \<open>TEXTILE_DATA\<close>

record textile_profile =
  base :: int
  carbon :: float64

definition TEXTILE_DATA :: "(string \<times> textile_profile) list" where
  "TEXTILE_DATA =
     [(''Cotton'',    \<lparr>base = 80, carbon = float_lit 15 1\<rparr>),
      (''Linen'',     \<lparr>base = 75, carbon = float_lit 14 1\<rparr>),
      (''Silk'',      \<lparr>base = 65, carbon = float_lit 20 1\<rparr>),
      (''Wool'',      \<lparr>base = 70, carbon = float_lit 22 1\<rparr>),
      (''Polyester'', \<lparr>base = 25, carbon = float_lit 45 1\<rparr>),
      (''Nylon'',     \<lparr>base = 20, carbon = float_lit 42 1\<rparr>),
      (''Acrylic'',   \<lparr>base = 15, carbon = float_lit 48 1\<rparr>),
      (''Elastane'',  \<lparr>base = 10, carbon = float_lit 50 1\<rparr>)]"

subsection \<open>Image analysis\<close>

text \<open>
  \<open>Image.open(image_path).convert("L")\<close> and \<open>np.array\<close> belong to Pillow and NumPy.
  Their outcome is a parameter \<open>fs\<close> of the model: \<open>fs path\<close> is \<open>None\<close> when
  opening or converting raises, and otherwise the 8-bit luminance pixels of the image
  (the array, row by row).

  \<open>pixels.mean()\<close> on a \<open>uint8\<close> array adds the pixels in binary64 and divides by
  their number. The sum of fewer than \<open>2 ^ 45\<close> bytes is below \<open>2 ^ 53\<close> and
  therefore exact, so only the division rounds. On an array without elements the result
  is \<open>nan\<close> (with a warning, not an exception), written \<open>None\<close> here.
\<close>

type_synonym pixels = "8 word list"

type_synonym files = "string \<Rightarrow> pixels option"

definition mean :: "pixels \<Rightarrow> float64 option" where
  "mean px =
     (if px = [] then None
      else Some (float_div (of_nat (sum_list (map unat px))) (of_nat (length px))))"

text \<open>\<open>x >= c\<close> on floats: every comparison with \<open>nan\<close> is false.\<close>

definition float_ge :: "float64 option \<Rightarrow> float64 \<Rightarrow> bool" where
  "float_ge x c = (case x of None \<Rightarrow> False | Some v \<Rightarrow> c \<le> v)"

definition analyze_image :: "files \<Rightarrow> string \<Rightarrow> py_error + (float64 \<times> string)" where
  "analyze_image fs image_path =
     (case fs image_path of
        None \<Rightarrow> Inl ImageError
      | Some pixels \<Rightarrow>
          let brightness = mean pixels
          in if float_ge brightness 170 then Inr (float_lit 10 1, ''Excellent'')
             else if float_ge brightness 120 then Inr (float_lit 8 1, ''Good'')
             else if float_ge brightness 80 then Inr (float_lit 6 1, ''Worn'')
             else Inr (float_lit 4 1, ''Poor''))"

subsection \<open>The rule engine\<close>

text \<open>
  The three verdict strings start with a glyph: U+2705, U+26A0 U+FE0F and U+274C. A
  \<open>string\<close> of HOL is a list of bytes, so each verdict is written as the UTF-8 bytes
  of the source file, which are also the bytes SQLite stores.
\<close>

definition ai_cloth_analysis ::
  "files \<Rightarrow> string \<Rightarrow> string \<Rightarrow> py_error + (float64 \<times> string \<times> float64 \<times> string)" where
  "ai_cloth_analysis fs textile image_path =
     (case map_of TEXTILE_DATA textile of
        None \<Rightarrow> Inl KeyError
      | Some profile \<Rightarrow>
          (case analyze_image fs image_path of
             Inl e \<Rightarrow> Inl e
           | Inr (factor, condition) \<Rightarrow>
               let recycle_percent = float_mul (of_int (base profile)) factor;
                   carbon_impact = float_mul recycle_percent (carbon profile);
                   verdict =
                     (if 60 \<le> recycle_percent
                        then CHR 0xE2 # CHR 0x9C # CHR 0x85 # '' Recyclable & Sustainable''
                      else if 35 \<le> recycle_percent
                        then CHR 0xE2 # CHR 0x9A # CHR 0xA0 # CHR 0xEF # CHR 0xB8 # CHR 0x8F #
                             '' Partially Recyclable''
                      else CHR 0xE2 # CHR 0x9D # CHR 0x8C # '' Not Recommended'')
               in Inr (recycle_percent, condition, carbon_impact, verdict)))"

subsection \<open>The history table\<close>

text \<open>
  The module creates the table at start:
  \<^verbatim>\<open>CREATE TABLE IF NOT EXISTS analysis_history (id INTEGER PRIMARY KEY AUTOINCREMENT,
  textile TEXT, recycle_percent REAL, condition TEXT, carbon_impact REAL, verdict TEXT,
  timestamp TEXT)\<close>.
  A row of the table is a record with one field for each column (prefixed \<open>col_\<close>, since
  the callback has local variables of the same names). The table keeps its rows in
  insertion order, and \<open>seq\<close> is the largest id ever given out, which SQLite keeps in
  \<open>sqlite_sequence\<close> for an \<open>AUTOINCREMENT\<close> column: the next id is one more than the
  largest of \<open>seq\<close> and the ids in the table, and the insertion fails once the largest
  64-bit id has been used.
\<close>

record history_row =
  col_id :: int
  col_textile :: string
  col_recycle_percent :: float64
  col_condition :: string
  col_carbon_impact :: float64
  col_verdict :: string
  col_timestamp :: string

record database =
  rows :: "history_row list"
  seq :: int

text \<open>\<open>CREATE TABLE IF NOT EXISTS\<close>: \<open>None\<close> is a database file without the table.\<close>

definition create_table :: "database option \<Rightarrow> database" where
  "create_table file = (case file of None \<Rightarrow> \<lparr>rows = [], seq = 0\<rparr> | Some d \<Rightarrow> d)"

definition insert_history ::
  "string \<times> float64 \<times> string \<times> float64 \<times> string \<times> string \<Rightarrow> database \<Rightarrow> py_error + database" where
  "insert_history vals d =
     (case vals of (textile, recycle, condition, carbon', verdict, stamp) \<Rightarrow>
        let largest = fold max (map col_id (rows d)) (seq d)
        in if 9223372036854775807 \<le> largest then Inl DatabaseError
           else Inr \<lparr>rows = rows d @
                        [\<lparr>col_id = largest + 1, col_textile = textile,
                          col_recycle_percent = recycle, col_condition = condition,
                          col_carbon_impact = carbon', col_verdict = verdict,
                          col_timestamp = stamp\<rparr>],
                     seq = largest + 1\<rparr>)"

subsection \<open>Formatting\<close>

fun show_nat :: "nat \<Rightarrow> string" where
  "show_nat n =
     (if n < 10 then [''0123456789'' ! n]
      else show_nat (n div 10) @ [''0123456789'' ! (n mod 10)])"

declare show_nat.simps [simp del]

text \<open>\<open>%02d\<close> and \<open>%04d\<close>: at least \<open>w\<close> digits, zeros in front.\<close>

definition zero_pad :: "nat \<Rightarrow> nat \<Rightarrow> string" where
  "zero_pad w n = (let s = show_nat n in replicate (w - length s) CHR ''0'' @ s)"

text \<open>
  The format \<open>:.2f\<close> of a float: its exact value rounded to two decimals, ties to even.
\<close>

definition format_2f :: "float64 \<Rightarrow> string" where
  "format_2f x =
     (let n = nat (round_half_even (\<bar>x\<bar> * 100))
      in (if x < 0 then ''-'' else []) @ show_nat (n div 100) @ ''.'' @ zero_pad 2 (n mod 100))"

text \<open>
  \<open>datetime.datetime.now()\<close> is a parameter of the model: the local time, of which
  \<open>strftime("%Y-%m-%d %H:%M:%S")\<close> reads the six fields below.
\<close>

record datetime =
  year :: nat
  month :: nat
  day :: nat
  hour :: nat
  minute :: nat
  second :: nat

definition strftime :: "datetime \<Rightarrow> string" where
  "strftime t =
     zero_pad 4 (year t) @ ''-'' @ zero_pad 2 (month t) @ ''-'' @ zero_pad 2 (day t) @ '' '' @
     zero_pad 2 (hour t) @ '':'' @ zero_pad 2 (minute t) @ '':'' @ zero_pad 2 (second t)"

text \<open>
  The shape \<open>YYYY-MM-DD HH:MM:SS\<close> of a string: a decimal digit where the pattern has a
  letter, the character of the pattern itself elsewhere, and nothing after the seconds.
\<close>

definition timestamp_format :: "string \<Rightarrow> bool" where
  "timestamp_format s =
     list_all2 (\<lambda>p c. if p \<in> set ''YMDHS'' then c \<in> set ''0123456789'' else c = p)
       ''YYYY-MM-DD HH:MM:SS'' s"

subsection \<open>The callbacks\<close>

text \<open>
  The state the callbacks share: the global \<open>image_path\<close>, which does not exist before
  the first \<open>upload_image\<close> (\<open>None\<close>: reading it raises \<open>NameError\<close>); the selection
  of the read-only combobox; the text of the result label; the table; and the number of
  error dialogs shown so far.
\<close>

record app_state =
  image_path :: "string option"
  textile_combo :: string
  result :: string
  history :: database
  error_dialogs :: nat

text \<open>
  \<open>upload_image\<close> stores what the file dialog returned (the empty string when the dialog
  was cancelled). The thumbnail it then draws is not part of the state.
\<close>

definition upload_image :: "string \<Rightarrow> app_state \<Rightarrow> app_state" where
  "upload_image chosen st = st\<lparr>image_path := Some chosen\<rparr>"

definition result_text :: "string \<Rightarrow> string \<Rightarrow> float64 \<Rightarrow> float64 \<Rightarrow> string \<Rightarrow> string" where
  "result_text textile condition recycle carbon' verdict =
     ''AI Analysis Result'' @ [CHR 0x0A, CHR 0x0A] @
     ''Textile Type        : '' @ textile @ [CHR 0x0A] @
     ''Cloth Condition     : '' @ condition @ [CHR 0x0A] @
     ''Recyclability       : '' @ format_2f recycle @ ''%'' @ [CHR 0x0A] @
     ''Carbon Impact       : '' @ format_2f carbon' @ [CHR 0x0A, CHR 0x0A] @
     ''Final Verdict       : '' @ verdict @ [CHR 0x0A, CHR 0x0A] @
     ''AI Explanation:'' @ [CHR 0x0A] @
     ''The system analyzed cloth brightness and'' @ [CHR 0x0A] @
     ''applied sustainability rules automatically.''"

text \<open>
  The body of the \<open>try\<close> block: \<open>Inl (e, st')\<close> when it raises \<open>e\<close>, with the state
  \<open>st'\<close> reached by then, \<open>Inr st'\<close> when it runs to its end.
\<close>

definition run_analysis_try :: "files \<Rightarrow> datetime \<Rightarrow> app_state \<Rightarrow> py_error \<times> app_state + app_state" where
  "run_analysis_try fs now st =
     (let textile = textile_combo st
      in if textile = [] then Inl (ValueError, st)
         else (case image_path st of
           None \<Rightarrow> Inl (NameError, st)
         | Some path \<Rightarrow>
             if path = [] then Inl (ValueError, st)
             else (case ai_cloth_analysis fs textile path of
               Inl e \<Rightarrow> Inl (e, st)
             | Inr (recycle, condition, carbon', verdict) \<Rightarrow>
                 let st1 = st\<lparr>result := result_text textile condition recycle carbon' verdict\<rparr>
                 in (case insert_history
                           (textile, recycle, condition, carbon', verdict, strftime now)
                           (history st1) of
                      Inl e \<Rightarrow> Inl (e, st1)
                    | Inr d \<Rightarrow> Inr (st1\<lparr>history := d\<rparr>)))))"

text \<open>The bare \<open>except:\<close> answers every exception with the same error dialog.\<close>

definition run_analysis :: "files \<Rightarrow> datetime \<Rightarrow> app_state \<Rightarrow> app_state" where
  "run_analysis fs now st =
     (case run_analysis_try fs now st of
        Inl (e, st') \<Rightarrow> st'\<lparr>error_dialogs := Suc (error_dialogs st')\<rparr>
      | Inr st' \<Rightarrow> st')"

subsection \<open>Example inputs\<close>

text \<open>
  A file system with small images: of mean brightness 200, 130, 100 and a little below 80,
  one on each threshold, and one without pixels. Every other path, such as
  \<open>notes.txt\<close>, is no image.
\<close>

definition example_files :: files where
  "example_files =
     [''bright.png'' \<mapsto> [190, 210], ''good.png'' \<mapsto> [120, 140],
      ''worn.png'' \<mapsto> [100], ''dark.png'' \<mapsto> [79, 80, 80],
      ''edge170.png'' \<mapsto> [170], ''edge120.png'' \<mapsto> [119, 121],
      ''edge80.png'' \<mapsto> [80, 80, 80], ''empty.png'' \<mapsto> []]"

definition example_now :: datetime where
  "example_now = \<lparr>year = 2024, month = 3, day = 9, hour = 7, minute = 5, second = 0\<rparr>"

definition example_state :: app_state where
  "example_state =
     \<lparr>image_path = Some ''good.png'', textile_combo = ''Wool'', result = [],
      history = create_table None, error_dialogs = 0\<rparr>"

text \<open>The state after one analysis of \<open>example_state\<close> at \<open>example_now\<close>.\<close>

definition example_after :: app_state where
  "example_after =
     example_state
       \<lparr>result := result_text ''Wool'' ''Good'' 56 (4334714641344103 / 35184372088832)
                   (CHR 0xE2 # CHR 0x9A # CHR 0xA0 # CHR 0xEF # CHR 0xB8 # CHR 0x8F #
                    '' Partially Recyclable''),
        history :=
          \<lparr>rows = [\<lparr>col_id = 1, col_textile = ''Wool'', col_recycle_percent = 56,
                      col_condition = ''Good'',
                      col_carbon_impact = 4334714641344103 / 35184372088832,
                      col_verdict = CHR 0xE2 # CHR 0x9A # CHR 0xA0 # CHR 0xEF # CHR 0xB8 #
                        CHR 0x8F # '' Partially Recyclable'',
                      col_timestamp = ''2024-03-09 07:05:00''\<rparr>],
           seq = 1\<rparr>\<rparr>"

text \<open>A second analysis of the same textile and image, one minute later.\<close>

definition example_later :: datetime where
  "example_later = \<lparr>year = 2024, month = 3, day = 9, hour = 7, minute = 6, second = 0\<rparr>"

definition example_after2 :: app_state where
  "example_after2 =
     example_after
       \<lparr>history :=
          \<lparr>rows = rows (history example_after) @
                    [\<lparr>col_id = 2, col_textile = ''Wool'', col_recycle_percent = 56,
                      col_condition = ''Good'',
                      col_carbon_impact = 4334714641344103 / 35184372088832,
                      col_verdict = CHR 0xE2 # CHR 0x9A # CHR 0xA0 # CHR 0xEF # CHR 0xB8 #
                        CHR 0x8F # '' Partially Recyclable'',
                      col_timestamp = ''2024-03-09 07:06:00''\<rparr>],
           seq = 2\<rparr>\<rparr>"

section \<open>Properties\<close>

subsection \<open>Accuracy of the rounding\<close>

text \<open>
  What \<open>round_double\<close> is expected to do: \<open>binade\<close> finds the exponent of its
  argument, the rounded significand is nearest to the exact one, and so the result is
  within half a unit in the last place of the argument.
\<close>

lemma round_half_even_near: "\<bar>of_int (round_half_even y) - y\<bar> \<le> 1 / 2"
proof -
  have "of_int \<lfloor>y\<rfloor> \<le> y" "y < of_int \<lfloor>y\<rfloor> + 1" by linarith+
  then show ?thesis
    by (auto simp: round_half_even_def Let_def)
qed

lemma round_half_even_ge:
  assumes "of_int m \<le> y"
  shows "m \<le> round_half_even y"
proof -
  from assms have "m \<le> \<lfloor>y\<rfloor>" by (simp add: le_floor_iff)
  then show ?thesis by (auto simp: round_half_even_def Let_def)
qed

lemma round_half_even_le:
  assumes "y \<le> of_int m"
  shows "round_half_even y \<le> m"
proof -
  from assms have "\<lceil>y\<rceil> \<le> m" by (simp add: ceiling_le_iff)
  moreover have "round_half_even y \<le> \<lceil>y\<rceil>"
  proof -
    have "\<lfloor>y\<rfloor> \<le> \<lceil>y\<rceil>" by linarith
    moreover have "\<lfloor>y\<rfloor> + 1 = \<lceil>y\<rceil>" if "y \<noteq> of_int \<lfloor>y\<rfloor>"
      using that by (metis ceiling_altdef of_int_floor_cancel)
    ultimately show ?thesis
      by (auto simp: round_half_even_def Let_def)
  qed
  ultimately show ?thesis by linarith
qed

lemma binade_bounds:
  assumes "0 < x"
  shows "power_int 2 (binade x) \<le> x \<and> x < power_int 2 (binade x + 1)"
proof (cases "1 \<le> x")
  case True
  let ?f = "\<lfloor>x\<rfloor>"
  from True have f: "0 < ?f" by simp
  from bitlen_bounds [OF f]
  have b: "2 ^ nat (bitlen ?f - 1) \<le> ?f" "?f < 2 ^ nat (bitlen ?f)" by simp_all
  from f have b1: "1 \<le> bitlen ?f" by (simp add: bitlen_alt_def)
  have "(2::rat) ^ nat (bitlen ?f - 1) = of_int (2 ^ nat (bitlen ?f - 1))" by simp
  also have "\<dots> \<le> of_int ?f" using b(1) by (simp only: of_int_le_iff)
  also have "\<dots> \<le> x" by simp
  finally have lo: "(2::rat) ^ nat (bitlen ?f - 1) \<le> x" .
  have "?f + 1 \<le> 2 ^ nat (bitlen ?f)" using b(2) by simp
  then have "(of_int (?f + 1) :: rat) \<le> of_int (2 ^ nat (bitlen ?f))" by (simp only: of_int_le_iff)
  moreover have "x < of_int (?f + 1)" by simp linarith
  ultimately have hi: "x < (2::rat) ^ nat (bitlen ?f)" by simp
  from True b1 lo hi show ?thesis
    by (simp add: binade_def power_int_def)
next
  case False
  let ?y = "1 / x"
  let ?c = "\<lceil>?y\<rceil>"
  from False assms have y1: "1 < ?y" by simp
  then have c: "0 < ?c - 1" by linarith
  from bitlen_bounds [OF c]
  have b: "2 ^ nat (bitlen (?c - 1) - 1) \<le> ?c - 1" "?c - 1 < 2 ^ nat (bitlen (?c - 1))" by simp_all
  from c have b1: "1 \<le> bitlen (?c - 1)" by (simp add: bitlen_alt_def)
  let ?b = "bitlen (?c - 1)"
  have cb: "?c \<le> 2 ^ nat ?b" using b(2) by simp
  have "?y \<le> of_int ?c" by (rule le_of_int_ceiling)
  also have "(of_int ?c :: rat) \<le> of_int (2 ^ nat ?b)" using cb by (simp only: of_int_le_iff)
  also have "\<dots> = 2 ^ nat ?b" by simp
  finally have yhi: "?y \<le> 2 ^ nat ?b" .
  have "(2::rat) ^ nat (?b - 1) = of_int (2 ^ nat (?b - 1))" by simp
  also have "\<dots> \<le> of_int (?c - 1)" using b(1) by (simp only: of_int_le_iff)
  also have "\<dots> < ?y" using ceiling_correct [of ?y] by simp
  finally have ylo: "(2::rat) ^ nat (?b - 1) < ?y" .
  have p: "(0::rat) < 2 ^ nat ?b" "(0::rat) < 2 ^ nat (?b - 1)" by simp_all
  from yhi assms p have lo: "1 / 2 ^ nat ?b \<le> x"
    by (simp add: field_simps)
  from ylo assms p have hi: "x < 1 / 2 ^ nat (?b - 1)"
    by (simp add: field_simps)
  have e1: "power_int (2::rat) (- ?b) = 1 / 2 ^ nat ?b"
    using b1 by (simp add: power_int_def field_simps)
  have e2: "power_int (2::rat) (- ?b + 1) = 1 / 2 ^ nat (?b - 1)"
  proof (cases "?b = 1")
    case True
    then show ?thesis by simp
  next
    case False
    with b1 have "- ?b + 1 < 0" by simp
    then have "power_int (2::rat) (- ?b + 1) = inverse 2 ^ nat (- (- ?b + 1))"
      by (simp add: power_int_def)
    also have "nat (- (- ?b + 1)) = nat (?b - 1)" by simp
    finally show ?thesis by (simp add: field_simps power_inverse)
  qed
  from False lo hi e1 e2 show ?thesis
    by (simp add: binade_def)
qed

lemma round_double_error:
  assumes "x \<noteq> 0"
  shows "\<bar>round_double x - x\<bar> \<le> power_int 2 (binade \<bar>x\<bar> - 53)"
proof -
  let ?u = "power_int (2::rat) (binade \<bar>x\<bar> - 52)"
  let ?k = "round_half_even (\<bar>x\<bar> / ?u)"
  have u: "0 < ?u" by (simp add: power_int_def)
  have rd: "round_double x = sgn x * (of_int ?k * ?u)"
    using assms by (simp add: round_double_def Let_def mult.assoc)
  have "round_double x - x = sgn x * (of_int ?k * ?u) - sgn x * \<bar>x\<bar>"
    unfolding rd by (simp only: mult_sgn_abs)
  also have "\<dots> = sgn x * (of_int ?k * ?u - \<bar>x\<bar>)"
    by (simp only: right_diff_distrib)
  finally have "\<bar>round_double x - x\<bar> = \<bar>of_int ?k * ?u - \<bar>x\<bar>\<bar>"
    using assms by (simp add: abs_mult abs_sgn_eq)
  also have "of_int ?k * ?u - \<bar>x\<bar> = (of_int ?k - \<bar>x\<bar> / ?u) * ?u"
    using u by (simp add: field_simps)
  also have "\<bar>\<dots>\<bar> = \<bar>of_int ?k - \<bar>x\<bar> / ?u\<bar> * ?u"
    using u by (simp add: abs_mult)
  also have "\<dots> \<le> 1 / 2 * ?u"
    using round_half_even_near [of "\<bar>x\<bar> / ?u"] u by (intro mult_right_mono) simp_all
  also have "1 / 2 * ?u = power_int 2 (binade \<bar>x\<bar> - 53)"
  proof -
    have "power_int (2::rat) ((binade \<bar>x\<bar> - 53) + 1) = power_int 2 (binade \<bar>x\<bar> - 53) * 2"
      by (rule power_int_add_1) simp
    moreover have "(binade \<bar>x\<bar> - 53) + 1 = binade \<bar>x\<bar> - 52" by simp
    ultimately have "?u = power_int 2 (binade \<bar>x\<bar> - 53) * 2" by simp
    then show ?thesis by simp
  qed
  finally show ?thesis .
qed

text \<open>
  The division in \<open>mean\<close> does not move a brightness across a threshold: for an image
  of at most \<open>2 ^ 45\<close> pixels and a whole number \<open>c > 0\<close>, the computed mean is at
  least \<open>c\<close> exactly when the exact mean, the sum of the pixels over their number,
  is. So the bands of \<open>analyze_image\<close> are the same for the exact mean brightness.
\<close>

lemma round_double_pos:
  assumes "0 < x"
  shows "round_double x =
           of_int (round_half_even (x / power_int 2 (binade x - 52))) * power_int 2 (binade x - 52)"
  using assms by (simp add: round_double_def Let_def)

lemma sum_pixels_le: "sum_list (map unat (px :: 8 word list)) \<le> 255 * length px"
proof (induction px)
  case Nil
  show ?case by simp
next
  case (Cons w ws)
  have "unat w < 2 ^ 8" using unsigned_less [of w] by simp
  then have "unat w \<le> 255" by simp
  with Cons show ?case by simp
qed

lemma round_double_threshold:
  fixes s n :: nat and c :: int
  assumes n: "0 < n" "n \<le> 2 ^ 45" and s: "s \<le> 255 * n" and c: "0 < c"
  shows "of_int c \<le> round_double (of_nat s / of_nat n) \<longleftrightarrow> c * int n \<le> int s"
proof (cases "s = 0")
  case True
  with n c show ?thesis by (simp add: round_double_def mult_le_0_iff)
next
  case False
  define x :: rat where "x = of_nat s / of_nat n"
  from False n have x0: "0 < x" by (simp add: x_def)
  from s n have x255: "x \<le> 255"
    by (simp add: x_def divide_le_eq)
  have xn: "x * of_nat n = of_nat s" using n by (simp add: x_def)
  define e where "e = binade x"
  have e7: "e \<le> 7"
  proof (rule ccontr)
    assume "\<not> e \<le> 7"
    then have "8 \<le> e" by simp
    then have "power_int (2::rat) 8 \<le> power_int 2 e"
      by (rule power_int_increasing) simp
    also have "\<dots> \<le> x" using binade_bounds [OF x0] by (simp add: e_def)
    finally show False using x255 by (simp add: power_int_def)
  qed
  define j where "j = nat (52 - e)"
  have j45: "45 \<le> j" using e7 by (simp add: j_def)
  define u :: rat where "u = power_int 2 (e - 52)"
  have u: "u = 1 / 2 ^ j"
    using e7 by (simp add: u_def j_def power_int_def field_simps power_inverse)
  have upos: "0 < u" by (simp add: u)
  define k where "k = round_half_even (x / u)"
  have rd: "round_double x = of_int k * u"
    unfolding k_def u_def e_def by (rule round_double_pos [OF x0])
  define m where "m = c * 2 ^ j"
  have mu: "of_int m * u = (of_int c :: rat)" by (simp add: m_def u)
  have un: "u * of_nat n \<le> 1"
  proof -
    have "(of_nat n :: rat) \<le> of_nat (2 ^ 45)" using n(2) by (simp only: of_nat_le_iff)
    also have "\<dots> = 2 ^ 45" by simp
    also have "\<dots> \<le> 2 ^ j" using j45 by (intro power_increasing) simp_all
    finally show ?thesis by (simp add: u field_simps)
  qed
  have npos: "(0::rat) < of_nat n" using n by simp
  have "of_int c \<le> round_double x \<longleftrightarrow> c * int n \<le> int s"
  proof
    assume le: "c * int n \<le> int s"
    then have "(of_int (c * int n) :: rat) \<le> of_int (int s)" by (simp only: of_int_le_iff)
    then have "of_int c * of_nat n \<le> x * of_nat n" by (simp add: xn)
    then have "(of_int c :: rat) \<le> x" using npos by (simp only: mult_le_cancel_right_pos)
    then have "of_int m * u \<le> x" by (simp only: mu)
    then have "of_int m \<le> x / u" using upos by (simp only: pos_le_divide_eq)
    then have "m \<le> k" unfolding k_def by (rule round_half_even_ge)
    then have "(of_int m :: rat) \<le> of_int k" by (simp only: of_int_le_iff)
    then have "of_int m * u \<le> of_int k * u" using upos by (simp only: mult_le_cancel_right_pos)
    then show "of_int c \<le> round_double x" by (simp only: mu rd)
  next
    assume ge: "of_int c \<le> round_double x"
    show "c * int n \<le> int s"
    proof (rule ccontr)
      assume "\<not> c * int n \<le> int s"
      then have "int s + 1 \<le> c * int n" by simp
      then have "(of_int (int s + 1) :: rat) \<le> of_int (c * int n)" by (simp only: of_int_le_iff)
      then have "x * of_nat n + 1 \<le> of_int c * of_nat n" by (simp add: xn)
      with un have "x * of_nat n + u * of_nat n \<le> of_int c * of_nat n" by linarith
      then have "(x + u) * of_nat n \<le> of_int c * of_nat n" by (simp only: distrib_right)
      then have "x + u \<le> of_int c" using npos by (simp only: mult_le_cancel_right_pos)
      then have "x \<le> of_int m * u - u" using mu by linarith
      also have "\<dots> = of_int (m - 1) * u" by (simp add: algebra_simps)
      finally have "x / u \<le> of_int (m - 1)" using upos by (simp only: pos_divide_le_eq)
      then have "k \<le> m - 1" unfolding k_def by (rule round_half_even_le)
      then have "(of_int k :: rat) \<le> of_int (m - 1)" by (simp only: of_int_le_iff)
      then have "of_int k * u \<le> of_int (m - 1) * u" using upos by (simp only: mult_le_cancel_right_pos)
      also have "\<dots> = of_int m * u - u" by (simp add: algebra_simps)
      also have "\<dots> = of_int c - u" by (simp only: mu)
      also have "\<dots> < of_int c" using upos by simp
      finally show False using ge by (simp add: rd)
    qed
  qed
  then show ?thesis by (simp only: x_def)
qed

lemma mean_threshold_exact:
  assumes "px \<noteq> []" and "length px \<le> 2 ^ 45" and "0 < c"
  shows "float_ge (mean px) (of_int c) \<longleftrightarrow>
           c * int (length px) \<le> int (sum_list (map unat px))"
  using assms round_double_threshold [of "length px" "sum_list (map unat px)" c] sum_pixels_le [of px]
  by (simp add: mean_def float_ge_def float_div_def)

subsection \<open>The example inputs\<close>

lemma example_files_simps:
  "example_files ''bright.png'' = Some [190, 210]"
  "example_files ''good.png'' = Some [120, 140]"
  "example_files ''worn.png'' = Some [100]"
  "example_files ''dark.png'' = Some [79, 80, 80]"
  "example_files ''edge170.png'' = Some [170]"
  "example_files ''edge120.png'' = Some [119, 121]"
  "example_files ''edge80.png'' = Some [80, 80, 80]"
  "example_files ''empty.png'' = Some []"
  "example_files ''notes.txt'' = None"
  by (simp_all add: example_files_def)

lemma example_means:
  "mean [190, 210] = Some 200"
  "mean [120, 140] = Some 130"
  "mean [100] = Some 100"
  "mean [79, 80, 80] = Some (5606043286153899 / 70368744177664)"
  "mean [170] = Some 170"
  "mean [119, 121] = Some 120"
  "mean [80, 80, 80] = Some 80"
  "mean [] = None"
  by code_simp+

subsection \<open>Condition bands\<close>

lemma analyze_image_exact_mean:
  assumes "fs path = Some px" and "px \<noteq> []" and "length px \<le> 2 ^ 45"
  shows "analyze_image fs path =
           (if 170 * int (length px) \<le> int (sum_list (map unat px))
              then Inr (float_lit 10 1, ''Excellent'')
            else if 120 * int (length px) \<le> int (sum_list (map unat px))
              then Inr (float_lit 8 1, ''Good'')
            else if 80 * int (length px) \<le> int (sum_list (map unat px))
              then Inr (float_lit 6 1, ''Worn'')
            else Inr (float_lit 4 1, ''Poor''))"
  using assms(1) mean_threshold_exact [OF assms(2,3), of 170]
    mean_threshold_exact [OF assms(2,3), of 120] mean_threshold_exact [OF assms(2,3), of 80]
  by (simp add: analyze_image_def)

text \<open>
  Claim C1. Let \<open>b\<close> be the mean brightness that the condition estimator computes for
  an image. If \<open>b \<ge> 170\<close> it returns the factor 1.0 and Excellent; if
  \<open>120 \<le> b < 170\<close>, 0.8 and Good; if \<open>80 \<le> b < 120\<close>, 0.6 and Worn; if
  \<open>b < 80\<close>, 0.4 and Poor. Each lower bound is inclusive: the witness takes images of
  brightness exactly 170, 120 and 80. (By \<open>analyze_image_exact_mean\<close> the bands
  are the same when \<open>b\<close> is read as the exact mean of the pixels, for every image
  of at most \<open>2 ^ 45\<close> pixels.)
\<close>

theorem analyze_image_bands:
  assumes "fs path = Some px" and "mean px = Some b"
  shows "(170 \<le> b \<longrightarrow> analyze_image fs path = Inr (float_lit 10 1, ''Excellent''))
       \<and> (120 \<le> b \<and> b < 170 \<longrightarrow> analyze_image fs path = Inr (float_lit 8 1, ''Good''))
       \<and> (80 \<le> b \<and> b < 120 \<longrightarrow> analyze_image fs path = Inr (float_lit 6 1, ''Worn''))
       \<and> (b < 80 \<longrightarrow> analyze_image fs path = Inr (float_lit 4 1, ''Poor''))"
  using assms by (simp add: analyze_image_def float_ge_def)

theorem analyze_image_bands_witness:
  "(example_files ''edge170.png'' = Some [170] \<and> mean [170] = Some 170 \<and> (170::rat) \<le> 170
      \<and> analyze_image example_files ''edge170.png'' = Inr (float_lit 10 1, ''Excellent''))
   \<and> (example_files ''edge120.png'' = Some [119, 121] \<and> mean [119, 121] = Some 120
      \<and> (120::rat) \<le> 120 \<and> (120::rat) < 170
      \<and> analyze_image example_files ''edge120.png'' = Inr (float_lit 8 1, ''Good''))
   \<and> (example_files ''edge80.png'' = Some [80, 80, 80] \<and> mean [80, 80, 80] = Some 80
      \<and> (80::rat) \<le> 80 \<and> (80::rat) < 120
      \<and> analyze_image example_files ''edge80.png'' = Inr (float_lit 6 1, ''Worn''))
   \<and> (example_files ''dark.png'' = Some [79, 80, 80]
      \<and> mean [79, 80, 80] = Some (5606043286153899 / 70368744177664)
      \<and> (5606043286153899 / 70368744177664 :: rat) < 80
      \<and> analyze_image example_files ''dark.png'' = Inr (float_lit 4 1, ''Poor''))"
  using analyze_image_bands [of example_files "''edge170.png''" "[170]" 170]
        analyze_image_bands [of example_files "''edge120.png''" "[119, 121]" 120]
        analyze_image_bands [of example_files "''edge80.png''" "[80, 80, 80]" 80]
        analyze_image_bands [of example_files "''dark.png''" "[79, 80, 80]"
                                "5606043286153899 / 70368744177664"]
  by (simp add: example_files_simps example_means)

subsection \<open>Auxiliary facts\<close>

text \<open>
  The four factors as binary64 numbers, and the product of every baseline with every
  factor, computed with \<open>round_double\<close>: all thirty-two products are whole numbers.
\<close>

lemma float_lit_values:
  "float_lit 10 1 = 1"
  "float_lit 8 1 = 3602879701896397 / 4503599627370496"
  "float_lit 6 1 = 5404319552844595 / 9007199254740992"
  "float_lit 4 1 = 3602879701896397 / 9007199254740992"
  by code_simp+

lemma recycle_table:
  "float_mul 80 (float_lit 10 1) = 80" "float_mul 80 (float_lit 8 1) = 64"
  "float_mul 80 (float_lit 6 1) = 48" "float_mul 80 (float_lit 4 1) = 32"
  "float_mul 75 (float_lit 10 1) = 75" "float_mul 75 (float_lit 8 1) = 60"
  "float_mul 75 (float_lit 6 1) = 45" "float_mul 75 (float_lit 4 1) = 30"
  "float_mul 65 (float_lit 10 1) = 65" "float_mul 65 (float_lit 8 1) = 52"
  "float_mul 65 (float_lit 6 1) = 39" "float_mul 65 (float_lit 4 1) = 26"
  "float_mul 70 (float_lit 10 1) = 70" "float_mul 70 (float_lit 8 1) = 56"
  "float_mul 70 (float_lit 6 1) = 42" "float_mul 70 (float_lit 4 1) = 28"
  "float_mul 25 (float_lit 10 1) = 25" "float_mul 25 (float_lit 8 1) = 20"
  "float_mul 25 (float_lit 6 1) = 15" "float_mul 25 (float_lit 4 1) = 10"
  "float_mul 20 (float_lit 10 1) = 20" "float_mul 20 (float_lit 8 1) = 16"
  "float_mul 20 (float_lit 6 1) = 12" "float_mul 20 (float_lit 4 1) = 8"
  "float_mul 15 (float_lit 10 1) = 15" "float_mul 15 (float_lit 8 1) = 12"
  "float_mul 15 (float_lit 6 1) = 9" "float_mul 15 (float_lit 4 1) = 6"
  "float_mul 10 (float_lit 10 1) = 10" "float_mul 10 (float_lit 8 1) = 8"
  "float_mul 10 (float_lit 6 1) = 6" "float_mul 10 (float_lit 4 1) = 4"
  by code_simp+

lemma textile_cases:
  assumes "map_of TEXTILE_DATA textile = Some profile"
  shows "base profile \<in> {80, 75, 65, 70, 25, 20, 15, 10}"
  using assms by (auto simp: TEXTILE_DATA_def split: if_splits)

lemma synthetic_cases:
  assumes "textile \<in> {''Polyester'', ''Nylon'', ''Acrylic'', ''Elastane''}"
  shows "\<exists>profile. map_of TEXTILE_DATA textile = Some profile \<and> base profile \<in> {25, 20, 15, 10}"
  using assms by (auto simp: TEXTILE_DATA_def)

lemma analyze_image_value:
  assumes "fs path = Some px" and "mean px = Some b"
  shows "analyze_image fs path =
           (if 170 \<le> b then Inr (float_lit 10 1, ''Excellent'')
            else if 120 \<le> b then Inr (float_lit 8 1, ''Good'')
            else if 80 \<le> b then Inr (float_lit 6 1, ''Worn'')
            else Inr (float_lit 4 1, ''Poor''))"
  using assms by (simp add: analyze_image_def float_ge_def)

lemma analyze_image_cases:
  assumes "fs path = Some px"
  shows "\<exists>factor condition. analyze_image fs path = Inr (factor, condition)
           \<and> factor \<in> {float_lit 10 1, float_lit 8 1, float_lit 6 1, float_lit 4 1}"
  using assms by (simp add: analyze_image_def Let_def)

lemma ai_cloth_analysis_value:
  assumes "map_of TEXTILE_DATA textile = Some profile"
      and "analyze_image fs path = Inr (factor, condition)"
  shows "ai_cloth_analysis fs textile path =
           Inr (float_mul (of_int (base profile)) factor, condition,
                float_mul (float_mul (of_int (base profile)) factor) (carbon profile),
                if 60 \<le> float_mul (of_int (base profile)) factor
                  then CHR 0xE2 # CHR 0x9C # CHR 0x85 # '' Recyclable & Sustainable''
                else if 35 \<le> float_mul (of_int (base profile)) factor
                  then CHR 0xE2 # CHR 0x9A # CHR 0xA0 # CHR 0xEF # CHR 0xB8 # CHR 0x8F #
                       '' Partially Recyclable''
                else CHR 0xE2 # CHR 0x9D # CHR 0x8C # '' Not Recommended'')"
  using assms by (simp add: ai_cloth_analysis_def Let_def)

lemma ai_cloth_analysis_Inr:
  assumes "ai_cloth_analysis fs textile path = Inr (r, c, ci, v)"
  shows "\<exists>profile factor. map_of TEXTILE_DATA textile = Some profile
           \<and> analyze_image fs path = Inr (factor, c)
           \<and> r = float_mul (of_int (base profile)) factor
           \<and> ci = float_mul r (carbon profile)
           \<and> v = (if 60 \<le> r
                  then CHR 0xE2 # CHR 0x9C # CHR 0x85 # '' Recyclable & Sustainable''
                else if 35 \<le> r
                  then CHR 0xE2 # CHR 0x9A # CHR 0xA0 # CHR 0xEF # CHR 0xB8 # CHR 0x8F #
                       '' Partially Recyclable''
                else CHR 0xE2 # CHR 0x9D # CHR 0x8C # '' Not Recommended'')"
  using assms
  by (auto simp: ai_cloth_analysis_def Let_def split: option.splits sum.splits prod.splits)

lemma recycle_bounds:
  assumes "b \<in> {80, 75, 65, 70, 25, 20, 15, 10}"
      and "f \<in> {float_lit 10 1, float_lit 8 1, float_lit 6 1, float_lit 4 1}"
  shows "4 \<le> float_mul (of_int b) f \<and> float_mul (of_int b) f \<le> 80"
  using assms by (auto simp: recycle_table)

lemma example_analyses:
  "ai_cloth_analysis example_files ''Cotton'' ''bright.png'' =
     Inr (80, ''Excellent'', 120, CHR 0xE2 # CHR 0x9C # CHR 0x85 # '' Recyclable & Sustainable'')"
  "ai_cloth_analysis example_files ''Polyester'' ''worn.png'' =
     Inr (15, ''Worn'', 135 / 2, CHR 0xE2 # CHR 0x9D # CHR 0x8C # '' Not Recommended'')"
  "ai_cloth_analysis example_files ''Wool'' ''good.png'' =
     Inr (56, ''Good'', 4334714641344103 / 35184372088832,
          CHR 0xE2 # CHR 0x9A # CHR 0xA0 # CHR 0xEF # CHR 0xB8 # CHR 0x8F # '' Partially Recyclable'')"
  "ai_cloth_analysis example_files ''Linen'' ''good.png'' =
     Inr (60, ''Good'', 84, CHR 0xE2 # CHR 0x9C # CHR 0x85 # '' Recyclable & Sustainable'')"
  "ai_cloth_analysis example_files ''Wool'' ''bright.png'' =
     Inr (70, ''Excellent'', 154, CHR 0xE2 # CHR 0x9C # CHR 0x85 # '' Recyclable & Sustainable'')"
  by code_simp+

subsection \<open>Verdict thresholds\<close>

text \<open>
  Claim C2, as stated, says that the verdict strings returned are exactly
  "Recyclable & Sustainable", "Partially Recyclable" and "Not Recommended". The strings
  of the code begin with a glyph and a space. For Cotton and an image of brightness 200
  the recyclability is 80, at least 60, and the verdict returned is not the string
  "Recyclable & Sustainable".
\<close>

theorem verdict_string_counterexample:
  "ai_cloth_analysis example_files ''Cotton'' ''bright.png'' =
     Inr (80, ''Excellent'', 120, CHR 0xE2 # CHR 0x9C # CHR 0x85 # '' Recyclable & Sustainable'')
   \<and> (60::rat) \<le> 80
   \<and> CHR 0xE2 # CHR 0x9C # CHR 0x85 # '' Recyclable & Sustainable'' \<noteq> ''Recyclable & Sustainable''"
  by (simp add: example_analyses)

text \<open>
  Claim C2, amended. For every textile and image on which the analysis returns, the
  verdict is determined by the recyclability percentage alone, with inclusive lower
  thresholds: at least 60 gives U+2705 followed by " Recyclable & Sustainable"; at least
  35 and below 60 gives U+26A0 U+FE0F followed by " Partially Recyclable"; below 35 gives
  U+274C followed by " Not Recommended". The witness has one scenario for each band, the
  first with a recyclability of exactly 60.
\<close>

theorem verdict_by_thresholds:
  assumes "ai_cloth_analysis fs textile path = Inr (r, c, ci, v)"
  shows "v = (if 60 \<le> r
                then CHR 0xE2 # CHR 0x9C # CHR 0x85 # '' Recyclable & Sustainable''
              else if 35 \<le> r
                then CHR 0xE2 # CHR 0x9A # CHR 0xA0 # CHR 0xEF # CHR 0xB8 # CHR 0x8F #
                     '' Partially Recyclable''
              else CHR 0xE2 # CHR 0x9D # CHR 0x8C # '' Not Recommended'')"
  using ai_cloth_analysis_Inr [OF assms] by blast

theorem verdict_by_thresholds_witness:
  "(ai_cloth_analysis example_files ''Linen'' ''good.png'' =
      Inr (60, ''Good'', 84, CHR 0xE2 # CHR 0x9C # CHR 0x85 # '' Recyclable & Sustainable'')
    \<and> CHR 0xE2 # CHR 0x9C # CHR 0x85 # '' Recyclable & Sustainable'' =
        (if (60::rat) \<le> 60
           then CHR 0xE2 # CHR 0x9C # CHR 0x85 # '' Recyclable & Sustainable''
         else if (35::rat) \<le> 60
           then CHR 0xE2 # CHR 0x9A # CHR 0xA0 # CHR 0xEF # CHR 0xB8 # CHR 0x8F #
                '' Partially Recyclable''
         else CHR 0xE2 # CHR 0x9D # CHR 0x8C # '' Not Recommended''))
   \<and> (ai_cloth_analysis example_files ''Wool'' ''good.png'' =
      Inr (56, ''Good'', 4334714641344103 / 35184372088832,
           CHR 0xE2 # CHR 0x9A # CHR 0xA0 # CHR 0xEF # CHR 0xB8 # CHR 0x8F # '' Partially Recyclable'')
    \<and> CHR 0xE2 # CHR 0x9A # CHR 0xA0 # CHR 0xEF # CHR 0xB8 # CHR 0x8F # '' Partially Recyclable'' =
        (if (60::rat) \<le> 56
           then CHR 0xE2 # CHR 0x9C # CHR 0x85 # '' Recyclable & Sustainable''
         else if (35::rat) \<le> 56
           then CHR 0xE2 # CHR 0x9A # CHR 0xA0 # CHR 0xEF # CHR 0xB8 # CHR 0x8F #
                '' Partially Recyclable''
         else CHR 0xE2 # CHR 0x9D # CHR 0x8C # '' Not Recommended''))
   \<and> (ai_cloth_analysis example_files ''Polyester'' ''worn.png'' =
      Inr (15, ''Worn'', 135 / 2, CHR 0xE2 # CHR 0x9D # CHR 0x8C # '' Not Recommended'')
    \<and> CHR 0xE2 # CHR 0x9D # CHR 0x8C # '' Not Recommended'' =
        (if (60::rat) \<le> 15
           then CHR 0xE2 # CHR 0x9C # CHR 0x85 # '' Recyclable & Sustainable''
         else if (35::rat) \<le> 15
           then CHR 0xE2 # CHR 0x9A # CHR 0xA0 # CHR 0xEF # CHR 0xB8 # CHR 0x8F #
                '' Partially Recyclable''
         else CHR 0xE2 # CHR 0x9D # CHR 0x8C # '' Not Recommended''))"
  using verdict_by_thresholds [OF example_analyses(4)]
        verdict_by_thresholds [OF example_analyses(3)]
        verdict_by_thresholds [OF example_analyses(2)]
        example_analyses
  by simp

subsection \<open>Range of the recyclability percentage\<close>

text \<open>
  Claim C10. For every textile of the table and every image that can be decoded, the
  analysis returns, and its recyclability percentage lies between 4 and 80 inclusive.
\<close>

theorem recycle_percent_range:
  assumes "map_of TEXTILE_DATA textile = Some profile" and "fs path = Some px"
  shows "\<exists>r c ci v. ai_cloth_analysis fs textile path = Inr (r, c, ci, v) \<and> 4 \<le> r \<and> r \<le> 80"
proof -
  from analyze_image_cases [of fs path px] assms(2) obtain factor condition
    where a: "analyze_image fs path = Inr (factor, condition)"
      and f: "factor \<in> {float_lit 10 1, float_lit 8 1, float_lit 6 1, float_lit 4 1}"
    by blast
  from recycle_bounds [OF textile_cases [OF assms(1)] f]
  have "4 \<le> float_mul (of_int (base profile)) factor \<and> float_mul (of_int (base profile)) factor \<le> 80" .
  with ai_cloth_analysis_value [OF assms(1) a] show ?thesis by blast
qed

theorem recycle_percent_range_witness:
  "map_of TEXTILE_DATA ''Wool'' = Some \<lparr>base = 70, carbon = float_lit 22 1\<rparr>
   \<and> example_files ''good.png'' = Some [120, 140]
   \<and> (\<exists>r c ci v. ai_cloth_analysis example_files ''Wool'' ''good.png'' = Inr (r, c, ci, v)
         \<and> 4 \<le> r \<and> r \<le> 80)"
proof -
  have t: "map_of TEXTILE_DATA ''Wool'' = Some \<lparr>base = 70, carbon = float_lit 22 1\<rparr>"
    by (simp add: TEXTILE_DATA_def)
  from recycle_percent_range [of "''Wool''" _ example_files "''good.png''" "[120, 140]"]
    t example_files_simps(2)
  show ?thesis by blast
qed

subsection \<open>The three scenarios\<close>

lemma carbon_examples:
  "float_mul 80 (float_lit 15 1) = 120"
  "float_mul 15 (float_lit 45 1) = 135 / 2"
  "float_mul 56 (float_lit 22 1) = 4334714641344103 / 35184372088832"
  by code_simp+

lemma format_2f_nonneg:
  assumes "0 \<le> x" and "round_half_even (x * 100) = int n"
  shows "format_2f x = show_nat (n div 100) @ ''.'' @ zero_pad 2 (n mod 100)"
  using assms by (simp add: format_2f_def Let_def abs_of_nonneg)

lemma hundredths:
  "round_half_even (80 * 100) = int 8000" "round_half_even (120 * 100) = int 12000"
  "round_half_even (15 * 100) = int 1500" "round_half_even (135 / 2 * 100) = int 6750"
  "round_half_even (56 * 100) = int 5600"
  "round_half_even (4334714641344103 / 35184372088832 * 100) = int 12320"
  by code_simp+

lemma format_examples:
  "format_2f 80 = ''80.00''" "format_2f 120 = ''120.00''"
  "format_2f 15 = ''15.00''" "format_2f (135 / 2) = ''67.50''"
  "format_2f 56 = ''56.00''" "format_2f (4334714641344103 / 35184372088832) = ''123.20''"
  using format_2f_nonneg [OF _ hundredths(1)] format_2f_nonneg [OF _ hundredths(2)]
        format_2f_nonneg [OF _ hundredths(3)] format_2f_nonneg [OF _ hundredths(4)]
        format_2f_nonneg [OF _ hundredths(5)] format_2f_nonneg [OF _ hundredths(6)]
  by (simp_all add: zero_pad_def show_nat.simps Let_def)

lemma scenario_profiles:
  "map_of TEXTILE_DATA ''Cotton'' = Some \<lparr>base = 80, carbon = float_lit 15 1\<rparr>"
  "map_of TEXTILE_DATA ''Polyester'' = Some \<lparr>base = 25, carbon = float_lit 45 1\<rparr>"
  "map_of TEXTILE_DATA ''Wool'' = Some \<lparr>base = 70, carbon = float_lit 22 1\<rparr>"
  by (simp_all add: TEXTILE_DATA_def)

text \<open>
  Claim C4, as stated, says that on the three scenarios the analysis returns exactly the
  values 80.00, 120.00; 15.00, 67.50; 56.00, 123.20 and the verdicts
  "Recyclable & Sustainable", "Not Recommended", "Partially Recyclable". For Wool and an
  image of mean brightness 130 the carbon impact returned is the binary64 product of 56.0
  and 2.2, which is \<open>4334714641344103 / 2 ^ 45\<close> (Python prints it as
  123.20000000000002) and not 123.2; and the verdict returned begins with a glyph, so it
  is not the string "Partially Recyclable".
\<close>

theorem scenario_values_counterexample:
  "example_files ''good.png'' = Some [120, 140]
   \<and> mean [120, 140] = Some 130
   \<and> ai_cloth_analysis example_files ''Wool'' ''good.png'' =
       Inr (56, ''Good'', 4334714641344103 / 35184372088832,
            CHR 0xE2 # CHR 0x9A # CHR 0xA0 # CHR 0xEF # CHR 0xB8 # CHR 0x8F # '' Partially Recyclable'')
   \<and> (4334714641344103 / 35184372088832 :: rat) \<noteq> 1232 / 10
   \<and> CHR 0xE2 # CHR 0x9A # CHR 0xA0 # CHR 0xEF # CHR 0xB8 # CHR 0x8F # '' Partially Recyclable''
       \<noteq> ''Partially Recyclable''"
  by (simp add: example_files_simps example_means example_analyses)

text \<open>
  Claim C4, amended. For every image that can be decoded: if its mean brightness is 200,
  the estimator returns the factor 1.0 and Excellent, and the analysis for Cotton returns
  80, Excellent, 120 and U+2705 " Recyclable & Sustainable"; if it is 100, the estimator
  returns 0.6 and Worn, and the analysis for Polyester returns 15, Worn, 67.5 and U+274C
  " Not Recommended"; if it is 130, the estimator returns 0.8 and Good, and the analysis
  for Wool returns 56, Good, the binary64 number \<open>4334714641344103 / 2 ^ 45\<close> and
  U+26A0 U+FE0F " Partially Recyclable". That carbon impact is within \<open>10 ^ -9\<close> of
  123.2, and the six numbers, formatted with two decimals as the result text shows
  them, read 80.00, 120.00, 15.00, 67.50, 56.00 and 123.20.
\<close>

theorem scenario_values:
  assumes "fs path = Some px"
  shows "(mean px = Some 200 \<longrightarrow>
            analyze_image fs path = Inr (float_lit 10 1, ''Excellent'')
          \<and> ai_cloth_analysis fs ''Cotton'' path =
              Inr (80, ''Excellent'', 120,
                   CHR 0xE2 # CHR 0x9C # CHR 0x85 # '' Recyclable & Sustainable''))
       \<and> (mean px = Some 100 \<longrightarrow>
            analyze_image fs path = Inr (float_lit 6 1, ''Worn'')
          \<and> ai_cloth_analysis fs ''Polyester'' path =
              Inr (15, ''Worn'', 135 / 2, CHR 0xE2 # CHR 0x9D # CHR 0x8C # '' Not Recommended''))
       \<and> (mean px = Some 130 \<longrightarrow>
            analyze_image fs path = Inr (float_lit 8 1, ''Good'')
          \<and> ai_cloth_analysis fs ''Wool'' path =
              Inr (56, ''Good'', 4334714641344103 / 35184372088832,
                   CHR 0xE2 # CHR 0x9A # CHR 0xA0 # CHR 0xEF # CHR 0xB8 # CHR 0x8F #
                   '' Partially Recyclable''))
       \<and> \<bar>4334714641344103 / 35184372088832 - 1232 / 10 :: rat\<bar> \<le> 1 / 10 ^ 9
       \<and> map format_2f [80, 120, 15, 135 / 2, 56, 4334714641344103 / 35184372088832] =
           [''80.00'', ''120.00'', ''15.00'', ''67.50'', ''56.00'', ''123.20'']"
proof -
  have A: "ai_cloth_analysis fs ''Cotton'' path =
              Inr (80, ''Excellent'', 120,
                   CHR 0xE2 # CHR 0x9C # CHR 0x85 # '' Recyclable & Sustainable'')"
    if "analyze_image fs path = Inr (float_lit 10 1, ''Excellent'')"
    using ai_cloth_analysis_value [OF scenario_profiles(1) that]
    by (simp add: recycle_table carbon_examples)
  have B: "ai_cloth_analysis fs ''Polyester'' path =
              Inr (15, ''Worn'', 135 / 2, CHR 0xE2 # CHR 0x9D # CHR 0x8C # '' Not Recommended'')"
    if "analyze_image fs path = Inr (float_lit 6 1, ''Worn'')"
    using ai_cloth_analysis_value [OF scenario_profiles(2) that]
    by (simp add: recycle_table carbon_examples)
  have C: "ai_cloth_analysis fs ''Wool'' path =
              Inr (56, ''Good'', 4334714641344103 / 35184372088832,
                   CHR 0xE2 # CHR 0x9A # CHR 0xA0 # CHR 0xEF # CHR 0xB8 # CHR 0x8F #
                   '' Partially Recyclable'')"
    if "analyze_image fs path = Inr (float_lit 8 1, ''Good'')"
    using ai_cloth_analysis_value [OF scenario_profiles(3) that]
    by (simp add: recycle_table carbon_examples)
  have a200: "analyze_image fs path = Inr (float_lit 10 1, ''Excellent'')" if "mean px = Some 200"
    using analyze_image_value [of fs path px 200] assms that by simp
  have a100: "analyze_image fs path = Inr (float_lit 6 1, ''Worn'')" if "mean px = Some 100"
    using analyze_image_value [of fs path px 100] assms that by simp
  have a130: "analyze_image fs path = Inr (float_lit 8 1, ''Good'')" if "mean px = Some 130"
    using analyze_image_value [of fs path px 130] assms that by simp
  have tol: "\<bar>4334714641344103 / 35184372088832 - 1232 / 10 :: rat\<bar> \<le> 1 / 10 ^ 9"
    by simp
  have fmt: "map format_2f [80, 120, 15, 135 / 2, 56, 4334714641344103 / 35184372088832] =
           [''80.00'', ''120.00'', ''15.00'', ''67.50'', ''56.00'', ''123.20'']"
    by (simp add: format_examples)
  from A B C a200 a100 a130 tol fmt show ?thesis by blast
qed

theorem scenario_values_witness:
  "(example_files ''bright.png'' = Some [190, 210] \<and> mean [190, 210] = Some 200
      \<and> ai_cloth_analysis example_files ''Cotton'' ''bright.png'' =
          Inr (80, ''Excellent'', 120,
               CHR 0xE2 # CHR 0x9C # CHR 0x85 # '' Recyclable & Sustainable''))
   \<and> (example_files ''worn.png'' = Some [100] \<and> mean [100] = Some 100
      \<and> ai_cloth_analysis example_files ''Polyester'' ''worn.png'' =
          Inr (15, ''Worn'', 135 / 2, CHR 0xE2 # CHR 0x9D # CHR 0x8C # '' Not Recommended''))
   \<and> (example_files ''good.png'' = Some [120, 140] \<and> mean [120, 140] = Some 130
      \<and> ai_cloth_analysis example_files ''Wool'' ''good.png'' =
          Inr (56, ''Good'', 4334714641344103 / 35184372088832,
               CHR 0xE2 # CHR 0x9A # CHR 0xA0 # CHR 0xEF # CHR 0xB8 # CHR 0x8F #
               '' Partially Recyclable''))"
  using scenario_values [of example_files "''bright.png''" "[190, 210]"]
        scenario_values [of example_files "''worn.png''" "[100]"]
        scenario_values [of example_files "''good.png''" "[120, 140]"]
        example_files_simps(1,2,3) example_means(1,2,3)
  by blast

subsection \<open>Synthetic textiles\<close>

lemma synthetic_baselines:
  "map (\<lambda>t. map_option base (map_of TEXTILE_DATA t))
       [''Polyester'', ''Nylon'', ''Acrylic'', ''Elastane''] =
   [Some 25, Some 20, Some 15, Some 10]"
  by (simp add: TEXTILE_DATA_def)

lemma synthetic_bounds:
  assumes "b \<in> {25, 20, 15, 10}"
      and "f \<in> {float_lit 10 1, float_lit 8 1, float_lit 6 1, float_lit 4 1}"
  shows "float_mul (of_int b) f \<le> 25"
  using assms by (auto simp: recycle_table)

text \<open>
  Claim C9. For each of Polyester, Nylon, Acrylic and Elastane (baselines 25, 20, 15 and
  10, see \<open>synthetic_baselines\<close>) and every image that can be decoded, the
  recyclability percentage is at most 25, hence below the threshold 35, and the analysis
  returns the verdict of the lowest band, Not Recommended (which the code spells with the
  glyph U+274C in front).
\<close>

theorem synthetic_textiles_not_recommended:
  assumes "textile \<in> {''Polyester'', ''Nylon'', ''Acrylic'', ''Elastane''}"
      and "fs path = Some px"
  shows "\<exists>r c ci. ai_cloth_analysis fs textile path =
                     Inr (r, c, ci, CHR 0xE2 # CHR 0x9D # CHR 0x8C # '' Not Recommended'')
                 \<and> r \<le> 25 \<and> r < 35"
proof -
  from synthetic_cases [OF assms(1)] obtain profile
    where p: "map_of TEXTILE_DATA textile = Some profile"
      and b: "base profile \<in> {25, 20, 15, 10}"
    by blast
  from analyze_image_cases [of fs path px] assms(2) obtain factor condition
    where a: "analyze_image fs path = Inr (factor, condition)"
      and f: "factor \<in> {float_lit 10 1, float_lit 8 1, float_lit 6 1, float_lit 4 1}"
    by blast
  from synthetic_bounds [OF b f]
  have le: "float_mul (of_int (base profile)) factor \<le> 25" .
  then have "\<not> 60 \<le> float_mul (of_int (base profile)) factor"
        and "\<not> 35 \<le> float_mul (of_int (base profile)) factor"
    by simp_all
  with ai_cloth_analysis_value [OF p a] le show ?thesis by simp
qed

theorem synthetic_textiles_not_recommended_witness:
  "''Polyester'' \<in> {''Polyester'', ''Nylon'', ''Acrylic'', ''Elastane''}
   \<and> example_files ''bright.png'' = Some [190, 210]
   \<and> (\<exists>r c ci. ai_cloth_analysis example_files ''Polyester'' ''bright.png'' =
                     Inr (r, c, ci, CHR 0xE2 # CHR 0x9D # CHR 0x8C # '' Not Recommended'')
                 \<and> r \<le> 25 \<and> r < 35)"
  using synthetic_textiles_not_recommended
          [of "''Polyester''" example_files "''bright.png''" "[190, 210]"]
        example_files_simps(1)
  by simp

subsection \<open>Monotonicity in the brightness\<close>

lemma factor_monotone:
  assumes "b \<in> {80, 75, 65, 70, 25, 20, 15, 10}"
  shows "float_mul (of_int b) (float_lit 4 1) \<le> float_mul (of_int b) (float_lit 6 1)
       \<and> float_mul (of_int b) (float_lit 6 1) \<le> float_mul (of_int b) (float_lit 8 1)
       \<and> float_mul (of_int b) (float_lit 8 1) \<le> float_mul (of_int b) (float_lit 10 1)"
  using assms by (auto simp: recycle_table)

text \<open>
  Claim C6. For a fixed textile of the table, the recyclability percentage does not
  decrease with the brightness: if two images have mean brightness \<open>b1 \<le> b2\<close>, the
  percentage computed for the first is at most the percentage computed for the second.
\<close>

theorem recycle_percent_monotone:
  assumes "map_of TEXTILE_DATA textile = Some profile"
      and "fs path1 = Some px1" and "mean px1 = Some b1"
      and "fs path2 = Some px2" and "mean px2 = Some b2"
      and "b1 \<le> b2"
  shows "\<exists>r1 c1 i1 v1 r2 c2 i2 v2.
           ai_cloth_analysis fs textile path1 = Inr (r1, c1, i1, v1)
         \<and> ai_cloth_analysis fs textile path2 = Inr (r2, c2, i2, v2)
         \<and> r1 \<le> r2"
proof -
  let ?b = "of_int (base profile) :: rat"
  let ?f = "\<lambda>b::rat. if 170 \<le> b then float_lit 10 1 else if 120 \<le> b then float_lit 8 1
                      else if 80 \<le> b then float_lit 6 1 else float_lit 4 1"
  from analyze_image_value [of fs path1 px1 b1] assms(2,3) obtain c1
    where a1: "analyze_image fs path1 = Inr (?f b1, c1)"
    by (simp split: if_splits)
  from analyze_image_value [of fs path2 px2 b2] assms(4,5) obtain c2
    where a2: "analyze_image fs path2 = Inr (?f b2, c2)"
    by (simp split: if_splits)
  from factor_monotone [OF textile_cases [OF assms(1)]] assms(6)
  have "float_mul ?b (?f b1) \<le> float_mul ?b (?f b2)"
    by auto
  with ai_cloth_analysis_value [OF assms(1) a1] ai_cloth_analysis_value [OF assms(1) a2]
  show ?thesis by blast
qed

theorem recycle_percent_monotone_witness:
  "map_of TEXTILE_DATA ''Wool'' = Some \<lparr>base = 70, carbon = float_lit 22 1\<rparr>
   \<and> example_files ''good.png'' = Some [120, 140] \<and> mean [120, 140] = Some 130
   \<and> example_files ''bright.png'' = Some [190, 210] \<and> mean [190, 210] = Some 200
   \<and> (130::rat) \<le> 200
   \<and> (\<exists>r1 c1 i1 v1 r2 c2 i2 v2.
           ai_cloth_analysis example_files ''Wool'' ''good.png'' = Inr (r1, c1, i1, v1)
         \<and> ai_cloth_analysis example_files ''Wool'' ''bright.png'' = Inr (r2, c2, i2, v2)
         \<and> r1 \<le> r2)"
proof -
  have t: "map_of TEXTILE_DATA ''Wool'' = Some \<lparr>base = 70, carbon = float_lit 22 1\<rparr>"
    by (simp add: TEXTILE_DATA_def)
  have le: "(130::rat) \<le> 200" by simp
  from recycle_percent_monotone
         [of "''Wool''" _ example_files "''good.png''" "[120, 140]" 130
             "''bright.png''" "[190, 210]" 200]
       t example_files_simps(1,2) example_means(1,2) le
  show ?thesis by blast
qed

subsection \<open>The callback and the table\<close>

lemma fold_max_ge_start: "a \<le> fold max xs (a::int)"
proof (induction xs arbitrary: a)
  case Nil
  show ?case by simp
next
  case (Cons x xs)
  have "a \<le> max x a" by simp
  also have "max x a \<le> fold max xs (max x a)" by (rule Cons.IH)
  finally show ?case by simp
qed

lemma fold_max_ge_elem: "x \<in> set xs \<Longrightarrow> x \<le> fold max xs (a::int)"
proof (induction xs arbitrary: a)
  case Nil
  then show ?case by simp
next
  case (Cons y ys)
  show ?case
  proof (cases "x = y")
    case True
    have "x \<le> max y a" using True by simp
    also have "max y a \<le> fold max ys (max y a)" by (rule fold_max_ge_start)
    finally show ?thesis by simp
  next
    case False
    with Cons.prems have "x \<in> set ys" by simp
    from Cons.IH [OF this] show ?thesis by simp
  qed
qed

lemma insert_history_Inr:
  assumes "insert_history (t, r, c, ci, v, ts) d = Inr d'"
  shows "\<exists>n. rows d' = rows d @
                 [\<lparr>col_id = n, col_textile = t, col_recycle_percent = r, col_condition = c,
                   col_carbon_impact = ci, col_verdict = v, col_timestamp = ts\<rparr>]
             \<and> (\<forall>x \<in> set (rows d). col_id x < n) \<and> seq d < n \<and> seq d' = n"
proof -
  let ?m = "fold max (map col_id (rows d)) (seq d)"
  from assms have d': "d' = \<lparr>rows = rows d @
                 [\<lparr>col_id = ?m + 1, col_textile = t, col_recycle_percent = r, col_condition = c,
                   col_carbon_impact = ci, col_verdict = v, col_timestamp = ts\<rparr>], seq = ?m + 1\<rparr>"
    by (simp add: insert_history_def Let_def split: if_splits)
  have "\<forall>x \<in> set (rows d). col_id x < ?m + 1"
  proof
    fix x assume "x \<in> set (rows d)"
    then have "col_id x \<in> set (map col_id (rows d))" by simp
    from fold_max_ge_elem [OF this] show "col_id x < ?m + 1" by (simp add: less_Suc_eq_le)
  qed
  moreover have "seq d < ?m + 1"
    using fold_max_ge_start [of "seq d" "map col_id (rows d)"] by simp
  ultimately show ?thesis using d' by simp
qed

lemma run_analysis_try_Inr:
  assumes "run_analysis_try fs now st = Inr st'"
  shows "\<exists>path r c ci v d'.
           textile_combo st \<noteq> [] \<and> image_path st = Some path \<and> path \<noteq> []
         \<and> ai_cloth_analysis fs (textile_combo st) path = Inr (r, c, ci, v)
         \<and> insert_history (textile_combo st, r, c, ci, v, strftime now) (history st) = Inr d'
         \<and> st' = st\<lparr>result := result_text (textile_combo st) c r ci v, history := d'\<rparr>"
  using assms
  by (auto simp: run_analysis_try_def Let_def
           split: if_splits option.splits sum.splits prod.splits)

lemma run_analysis_try_Inl:
  assumes "run_analysis_try fs now st = Inl (e, st')"
  shows "history st' = history st \<and> error_dialogs st' = error_dialogs st
       \<and> image_path st' = image_path st \<and> textile_combo st' = textile_combo st"
  using assms
  by (auto simp: run_analysis_try_def Let_def
           split: if_splits option.splits sum.splits prod.splits)

lemma run_analysis_Inl:
  assumes "run_analysis_try fs now st = Inl (e, st')"
  shows "history (run_analysis fs now st) = history st
       \<and> error_dialogs (run_analysis fs now st) = Suc (error_dialogs st)"
  using run_analysis_try_Inl [OF assms] assms by (simp add: run_analysis_def)

lemma run_analysis_Inr:
  assumes "run_analysis_try fs now st = Inr st'"
  shows "run_analysis fs now st = st'"
  using assms by (simp add: run_analysis_def)

lemma empty_not_textile: "map_of TEXTILE_DATA [] = None"
  by (simp add: TEXTILE_DATA_def)

lemma digit_mem: "k < 10 \<Longrightarrow> ''0123456789'' ! k \<in> set ''0123456789''"
proof -
  assume "k < 10"
  then have "k < length ''0123456789''" by simp
  then show ?thesis by (rule nth_mem)
qed

lemma show_nat_small: "n < 10 \<Longrightarrow> show_nat n = [''0123456789'' ! n]"
  by (simp add: show_nat.simps)

lemma show_nat_step: "10 \<le> n \<Longrightarrow> show_nat n = show_nat (n div 10) @ [''0123456789'' ! (n mod 10)]"
  by (subst show_nat.simps) simp

lemma zero_pad_2:
  assumes "n < 100"
  shows "zero_pad 2 n = [''0123456789'' ! (n div 10), ''0123456789'' ! (n mod 10)]"
proof (cases "n < 10")
  case True
  then show ?thesis by (simp add: zero_pad_def show_nat_small)
next
  case False
  then have "10 \<le> n" by simp
  moreover from assms have "n div 10 < 10" by simp
  ultimately show ?thesis by (simp add: zero_pad_def show_nat_step show_nat_small)
qed

lemma zero_pad_4:
  assumes "1000 \<le> n" and "n \<le> 9999"
  shows "zero_pad 4 n = [''0123456789'' ! (n div 1000), ''0123456789'' ! (n div 100 mod 10),
                         ''0123456789'' ! (n div 10 mod 10), ''0123456789'' ! (n mod 10)]"
proof -
  from assms have a: "10 \<le> n" "10 \<le> n div 10" "10 \<le> n div 100" "n div 1000 < 10"
    by simp_all
  have "show_nat n = show_nat (n div 10) @ [''0123456789'' ! (n mod 10)]"
    using a(1) by (rule show_nat_step)
  also have "show_nat (n div 10) = show_nat (n div 100) @ [''0123456789'' ! (n div 10 mod 10)]"
    using show_nat_step [OF a(2)] by (simp add: div_mult2_eq [symmetric])
  also have "show_nat (n div 100) = show_nat (n div 1000) @ [''0123456789'' ! (n div 100 mod 10)]"
    using show_nat_step [OF a(3)] by (simp add: div_mult2_eq [symmetric])
  also have "show_nat (n div 1000) = [''0123456789'' ! (n div 1000)]"
    using a(4) by (rule show_nat_small)
  finally show ?thesis by (simp add: zero_pad_def)
qed

lemma strftime_format:
  assumes "1000 \<le> year t" and "year t \<le> 9999" and "month t < 100" and "day t < 100"
      and "hour t < 100" and "minute t < 100" and "second t < 100"
  shows "timestamp_format (strftime t)"
proof -
  have d: "''0123456789'' ! (k mod 10) \<in> set ''0123456789''" for k :: nat
    by (rule digit_mem) simp
  have d': "''0123456789'' ! (k div 10) \<in> set ''0123456789''" if "k < 100" for k :: nat
    by (rule digit_mem) (use that in simp)
  have y: "''0123456789'' ! (year t div 1000) \<in> set ''0123456789''"
    by (rule digit_mem) (use assms(2) in simp)
  show ?thesis
    unfolding strftime_def timestamp_format_def
      zero_pad_4 [OF assms(1,2)] zero_pad_2 [OF assms(3)] zero_pad_2 [OF assms(4)]
      zero_pad_2 [OF assms(5)] zero_pad_2 [OF assms(6)] zero_pad_2 [OF assms(7)]
    using d d' [OF assms(3)] d' [OF assms(4)] d' [OF assms(5)] d' [OF assms(6)]
      d' [OF assms(7)] y
    by simp
qed

lemma strftime_example: "strftime example_now = ''2024-03-09 07:05:00''"
  by (simp add: strftime_def example_now_def zero_pad_def show_nat.simps Let_def)

lemma example_run:
  "run_analysis_try example_files example_now example_state = Inr example_after"
  by (simp add: run_analysis_try_def example_state_def example_after_def example_analyses
        insert_history_def create_table_def strftime_example Let_def)

subsection \<open>Invariants of a stored record\<close>

lemma carbon_rates:
  "float_lit 15 1 = 3 / 2" "float_lit 14 1 = 3152519739159347 / 2251799813685248"
  "float_lit 20 1 = 2" "float_lit 22 1 = 2476979795053773 / 1125899906842624"
  "float_lit 45 1 = 9 / 2" "float_lit 42 1 = 4728779608739021 / 1125899906842624"
  "float_lit 48 1 = 5404319552844595 / 1125899906842624" "float_lit 50 1 = 5"
  by code_simp+

lemma carbon_rate_bounds:
  assumes "map_of TEXTILE_DATA textile = Some profile"
  shows "1 \<le> carbon profile \<and> carbon profile \<le> 5"
  using assms by (auto simp: TEXTILE_DATA_def carbon_rates split: if_splits)

lemma recycle_exact:
  assumes "b \<in> {80, 75, 65, 70, 25, 20, 15, 10}" and "d \<in> {10, 8, 6, 4}"
  shows "float_mul (of_int b) (float_lit d 1) = of_int (b * d) / 10"
  using assms by (auto simp: recycle_table)

lemma float_mul_error:
  assumes "0 < a * b" and "a * b \<le> 400"
  shows "\<bar>float_mul a b - a * b\<bar> \<le> 1 / 2 ^ 45"
proof -
  define x where "x = a * b"
  from assms have x: "0 < x" "x \<le> 400" by (simp_all add: x_def)
  have e8: "binade x \<le> 8"
  proof (rule ccontr)
    assume "\<not> binade x \<le> 8"
    then have "9 \<le> binade x" by simp
    then have "power_int (2::rat) 9 \<le> power_int 2 (binade x)"
      by (rule power_int_increasing) simp
    also have "\<dots> \<le> x" using binade_bounds [OF x(1)] by simp
    finally show False using x(2) by (simp add: power_int_def)
  qed
  from x have "x \<noteq> 0" by simp
  from round_double_error [OF this] x(1)
  have "\<bar>round_double x - x\<bar> \<le> power_int 2 (binade x - 53)" by simp
  also have "\<dots> \<le> power_int 2 (- 45)"
    using e8 by (intro power_int_increasing) simp_all
  also have "\<dots> = 1 / 2 ^ 45" by (simp add: power_int_def field_simps power_inverse)
  finally show ?thesis by (simp add: float_mul_def x_def)
qed

lemma analyze_image_digit:
  assumes "fs path = Some px"
  shows "\<exists>d condition. d \<in> {10, 8, 6, 4} \<and> analyze_image fs path = Inr (float_lit d 1, condition)"
  using assms by (auto simp: analyze_image_def Let_def)

text \<open>
  Claim C3. Every record that an analysis produces and stores satisfies: its
  recyclability percentage is the product of the baseline of its textile and the
  degradation factor of the image, where the factor is one of 1.0, 0.8, 0.6 and 0.4; its
  carbon impact is the product of that percentage and the carbon rate of the textile.
  The products are those of Python's \<open>*\<close> on floats, and the stored fields are the
  values \<open>ai_cloth_analysis\<close> returned, with no rounding in between (only the result
  text is formatted to two decimals). Moreover the percentage equals the product of the
  baseline and the decimal factor as rational numbers, and the carbon impact is within
  \<open>10 ^ -9\<close> of the product of the stored percentage and the carbon rate as rational
  numbers.
\<close>

theorem stored_record_invariants:
  assumes "run_analysis_try fs now st = Inr st'"
  shows "\<exists>path profile d row.
           image_path st = Some path
         \<and> map_of TEXTILE_DATA (textile_combo st) = Some profile
         \<and> d \<in> {10, 8, 6, 4}
         \<and> analyze_image fs path = Inr (float_lit d 1, col_condition row)
         \<and> ai_cloth_analysis fs (textile_combo st) path =
             Inr (col_recycle_percent row, col_condition row, col_carbon_impact row,
                  col_verdict row)
         \<and> rows (history st') = rows (history st) @ [row]
         \<and> col_textile row = textile_combo st
         \<and> col_recycle_percent row = float_mul (of_int (base profile)) (float_lit d 1)
         \<and> col_recycle_percent row = of_int (base profile * d) / 10
         \<and> col_carbon_impact row = float_mul (col_recycle_percent row) (carbon profile)
         \<and> \<bar>col_carbon_impact row - col_recycle_percent row * carbon profile\<bar> \<le> 1 / 10 ^ 9"
proof -
  from run_analysis_try_Inr [OF assms] obtain path r c ci v d'
    where p: "image_path st = Some path"
      and a: "ai_cloth_analysis fs (textile_combo st) path = Inr (r, c, ci, v)"
      and i: "insert_history (textile_combo st, r, c, ci, v, strftime now) (history st) = Inr d'"
      and s: "st' = st\<lparr>result := result_text (textile_combo st) c r ci v, history := d'\<rparr>"
    by blast
  from ai_cloth_analysis_Inr [OF a] obtain profile factor
    where t: "map_of TEXTILE_DATA (textile_combo st) = Some profile"
      and f: "analyze_image fs path = Inr (factor, c)"
      and r: "r = float_mul (of_int (base profile)) factor"
      and ci: "ci = float_mul r (carbon profile)"
    by blast
  from f obtain px where "fs path = Some px"
    by (cases "fs path") (simp_all add: analyze_image_def)
  from analyze_image_digit [of fs path px] this f obtain d
    where d: "d \<in> {10, 8, 6, 4}" and fd: "factor = float_lit d 1"
    by auto
  from recycle_exact [OF textile_cases [OF t] d] r fd
  have rx: "r = of_int (base profile * d) / 10" by simp
  from textile_cases [OF t] d rx have rb: "4 \<le> r" "r \<le> 80"
    by auto
  from carbon_rate_bounds [OF t] have cb: "1 \<le> carbon profile" "carbon profile \<le> 5"
    by simp_all
  have "0 < r * carbon profile"
    using rb(1) cb(1) by (intro mult_pos_pos) simp_all
  moreover have "r * carbon profile \<le> 80 * 5"
    using rb cb by (intro mult_mono) simp_all
  ultimately have "\<bar>float_mul r (carbon profile) - r * carbon profile\<bar> \<le> 1 / 2 ^ 45"
    by (intro float_mul_error) simp_all
  also have "\<dots> \<le> (1 / 10 ^ 9 :: rat)" by simp
  finally have tol: "\<bar>ci - r * carbon profile\<bar> \<le> 1 / 10 ^ 9" by (simp only: ci)
  from insert_history_Inr [OF i] obtain n
    where "rows d' = rows (history st) @
             [\<lparr>col_id = n, col_textile = textile_combo st, col_recycle_percent = r,
               col_condition = c, col_carbon_impact = ci, col_verdict = v,
               col_timestamp = strftime now\<rparr>]"
    by blast
  with s have rows: "rows (history st') = rows (history st) @
             [\<lparr>col_id = n, col_textile = textile_combo st, col_recycle_percent = r,
               col_condition = c, col_carbon_impact = ci, col_verdict = v,
               col_timestamp = strftime now\<rparr>]"
    by simp
  let ?row = "\<lparr>col_id = n, col_textile = textile_combo st, col_recycle_percent = r,
               col_condition = c, col_carbon_impact = ci, col_verdict = v,
               col_timestamp = strftime now\<rparr>"
  have "image_path st = Some path
         \<and> map_of TEXTILE_DATA (textile_combo st) = Some profile
         \<and> d \<in> {10, 8, 6, 4}
         \<and> analyze_image fs path = Inr (float_lit d 1, col_condition ?row)
         \<and> ai_cloth_analysis fs (textile_combo st) path =
             Inr (col_recycle_percent ?row, col_condition ?row, col_carbon_impact ?row,
                  col_verdict ?row)
         \<and> rows (history st') = rows (history st) @ [?row]
         \<and> col_textile ?row = textile_combo st
         \<and> col_recycle_percent ?row = float_mul (of_int (base profile)) (float_lit d 1)
         \<and> col_recycle_percent ?row = of_int (base profile * d) / 10
         \<and> col_carbon_impact ?row = float_mul (col_recycle_percent ?row) (carbon profile)
         \<and> \<bar>col_carbon_impact ?row - col_recycle_percent ?row * carbon profile\<bar> \<le> 1 / 10 ^ 9"
    using p t d f fd a rows r rx ci tol by simp
  then show ?thesis by blast
qed

theorem stored_record_invariants_witness:
  "run_analysis_try example_files example_now example_state = Inr example_after
   \<and> (\<exists>path profile d row.
         image_path example_state = Some path
       \<and> map_of TEXTILE_DATA (textile_combo example_state) = Some profile
       \<and> d \<in> {10, 8, 6, 4}
       \<and> analyze_image example_files path = Inr (float_lit d 1, col_condition row)
       \<and> ai_cloth_analysis example_files (textile_combo example_state) path =
           Inr (col_recycle_percent row, col_condition row, col_carbon_impact row,
                col_verdict row)
       \<and> rows (history example_after) = rows (history example_state) @ [row]
       \<and> col_textile row = textile_combo example_state
       \<and> col_recycle_percent row = float_mul (of_int (base profile)) (float_lit d 1)
       \<and> col_recycle_percent row = of_int (base profile * d) / 10
       \<and> col_carbon_impact row = float_mul (col_recycle_percent row) (carbon profile)
       \<and> \<bar>col_carbon_impact row - col_recycle_percent row * carbon profile\<bar> \<le> 1 / 10 ^ 9)"
  using stored_record_invariants [OF example_run] example_run by blast

lemma strftime_later: "strftime example_later = ''2024-03-09 07:06:00''"
  by (simp add: strftime_def example_later_def zero_pad_def show_nat.simps Let_def)

lemma example_run2:
  "run_analysis_try example_files example_later example_after = Inr example_after2"
  by (simp add: run_analysis_try_def example_state_def example_after_def example_after2_def
        example_analyses insert_history_def create_table_def strftime_later Let_def)

lemma ai_cloth_analysis_same_image:
  assumes "fs2 path2 = fs1 path1"
  shows "ai_cloth_analysis fs2 textile path2 = ai_cloth_analysis fs1 textile path1"
proof -
  have "analyze_image fs2 path2 = analyze_image fs1 path1"
    unfolding analyze_image_def assms ..
  then show ?thesis
    unfolding ai_cloth_analysis_def by (rule arg_cong)
qed

subsection \<open>Failed analyses leave the table alone\<close>

text \<open>
  Claim C5. A record is appended to the history only when the whole computation
  succeeds. If the textile selection or the image path is empty, the \<open>try\<close> block
  raises \<open>ValueError\<close> (the spec's InvalidInputError); if the textile is known and the
  path is not empty but does not decode as an image, it raises the error of
  \<open>Image.open\<close> (the spec's ImageReadError). Whenever the block raises, the history
  is unchanged and one error dialog is shown. And whenever the history does change, the
  block ran to its end, the analysis returned a result, and exactly one row was appended.
\<close>

theorem no_record_on_failure:
  "(textile_combo st = [] \<or> image_path st = Some [] \<longrightarrow>
      run_analysis_try fs now st = Inl (ValueError, st))
   \<and> (map_of TEXTILE_DATA (textile_combo st) \<noteq> None \<and> image_path st = Some path
        \<and> path \<noteq> [] \<and> fs path = None \<longrightarrow>
      run_analysis_try fs now st = Inl (ImageError, st))
   \<and> (run_analysis_try fs now st = Inl (e, st') \<longrightarrow>
        history (run_analysis fs now st) = history st
      \<and> error_dialogs (run_analysis fs now st) = Suc (error_dialogs st))
   \<and> (history (run_analysis fs now st) \<noteq> history st \<longrightarrow>
        (\<exists>p r c ci v row.
            image_path st = Some p
          \<and> ai_cloth_analysis fs (textile_combo st) p = Inr (r, c, ci, v)
          \<and> run_analysis_try fs now st = Inr (run_analysis fs now st)
          \<and> rows (history (run_analysis fs now st)) = rows (history st) @ [row]))"
proof (intro conjI impI)
  assume "textile_combo st = [] \<or> image_path st = Some []"
  then show "run_analysis_try fs now st = Inl (ValueError, st)"
    by (auto simp: run_analysis_try_def Let_def)
next
  assume a: "map_of TEXTILE_DATA (textile_combo st) \<noteq> None \<and> image_path st = Some path
        \<and> path \<noteq> [] \<and> fs path = None"
  then have "textile_combo st \<noteq> []"
    using empty_not_textile by auto
  moreover from a have "ai_cloth_analysis fs (textile_combo st) path = Inl ImageError"
    by (auto simp: ai_cloth_analysis_def analyze_image_def)
  ultimately show "run_analysis_try fs now st = Inl (ImageError, st)"
    using a by (simp add: run_analysis_try_def Let_def)
next
  assume "run_analysis_try fs now st = Inl (e, st')"
  from run_analysis_Inl [OF this]
  show "history (run_analysis fs now st) = history st"
    and "error_dialogs (run_analysis fs now st) = Suc (error_dialogs st)"
    by simp_all
next
  assume changed: "history (run_analysis fs now st) \<noteq> history st"
  show "\<exists>p r c ci v row.
            image_path st = Some p
          \<and> ai_cloth_analysis fs (textile_combo st) p = Inr (r, c, ci, v)
          \<and> run_analysis_try fs now st = Inr (run_analysis fs now st)
          \<and> rows (history (run_analysis fs now st)) = rows (history st) @ [row]"
  proof (cases "run_analysis_try fs now st")
    case (Inl x)
    obtain e' s' where "x = (e', s')" by (cases x)
    with Inl run_analysis_Inl [of fs now st e' s'] changed show ?thesis by simp
  next
    case (Inr s')
    from run_analysis_Inr [OF Inr] have eq: "run_analysis fs now st = s'" .
    from run_analysis_try_Inr [OF Inr] obtain p r c ci v d'
      where p: "image_path st = Some p"
        and a: "ai_cloth_analysis fs (textile_combo st) p = Inr (r, c, ci, v)"
        and i: "insert_history (textile_combo st, r, c, ci, v, strftime now) (history st) = Inr d'"
        and s: "s' = st\<lparr>result := result_text (textile_combo st) c r ci v, history := d'\<rparr>"
      by blast
    from insert_history_Inr [OF i] obtain row where "rows d' = rows (history st) @ [row]"
      by blast
    with s have "rows (history s') = rows (history st) @ [row]" by simp
    with p a Inr eq show ?thesis by blast
  qed
qed

theorem no_record_on_failure_witness:
  "(textile_combo (example_state\<lparr>textile_combo := []\<rparr>) = []
      \<and> run_analysis_try example_files example_now (example_state\<lparr>textile_combo := []\<rparr>) =
          Inl (ValueError, example_state\<lparr>textile_combo := []\<rparr>)
      \<and> history (run_analysis example_files example_now (example_state\<lparr>textile_combo := []\<rparr>)) =
          history (example_state\<lparr>textile_combo := []\<rparr>))
   \<and> (image_path (upload_image [] example_state) = Some []
      \<and> run_analysis_try example_files example_now (upload_image [] example_state) =
          Inl (ValueError, upload_image [] example_state)
      \<and> history (run_analysis example_files example_now (upload_image [] example_state)) =
          history (upload_image [] example_state))
   \<and> (map_of TEXTILE_DATA (textile_combo (upload_image ''notes.txt'' example_state)) \<noteq> None
      \<and> image_path (upload_image ''notes.txt'' example_state) = Some ''notes.txt''
      \<and> ''notes.txt'' \<noteq> [] \<and> example_files ''notes.txt'' = None
      \<and> run_analysis_try example_files example_now (upload_image ''notes.txt'' example_state) =
          Inl (ImageError, upload_image ''notes.txt'' example_state)
      \<and> history (run_analysis example_files example_now
                    (upload_image ''notes.txt'' example_state)) =
          history (upload_image ''notes.txt'' example_state))
   \<and> (history (run_analysis example_files example_now example_state) \<noteq> history example_state
      \<and> run_analysis_try example_files example_now example_state =
          Inr (run_analysis example_files example_now example_state))"
proof -
  let ?s1 = "example_state\<lparr>textile_combo := []\<rparr>"
  let ?s2 = "upload_image [] example_state"
  let ?s3 = "upload_image ''notes.txt'' example_state"
  have h1: "textile_combo ?s1 = []" by simp
  have h2: "image_path ?s2 = Some []" by (simp add: upload_image_def)
  have h3: "map_of TEXTILE_DATA (textile_combo ?s3) \<noteq> None \<and> image_path ?s3 = Some ''notes.txt''
              \<and> ''notes.txt'' \<noteq> [] \<and> example_files ''notes.txt'' = None"
    by (simp add: upload_image_def example_state_def scenario_profiles example_files_simps)
  have h4: "history (run_analysis example_files example_now example_state) \<noteq> history example_state"
    using run_analysis_Inr [OF example_run]
    by (simp add: example_after_def example_state_def create_table_def)
  note t1 = no_record_on_failure [of ?s1 example_files example_now]
  note t2 = no_record_on_failure [of ?s2 example_files example_now]
  note t3 = no_record_on_failure [of ?s3 example_files example_now "''notes.txt''"]
  note t4 = no_record_on_failure [of example_state example_files example_now]
  from t1 h1 have a1: "run_analysis_try example_files example_now ?s1 = Inl (ValueError, ?s1)"
    by blast
  from t2 h2 have a2: "run_analysis_try example_files example_now ?s2 = Inl (ValueError, ?s2)"
    by blast
  from t3 h3 have a3: "run_analysis_try example_files example_now ?s3 = Inl (ImageError, ?s3)"
    by blast
  from t1 [of _ ValueError ?s1] a1
  have b1: "history (run_analysis example_files example_now ?s1) = history ?s1" by blast
  from t2 [of _ ValueError ?s2] a2
  have b2: "history (run_analysis example_files example_now ?s2) = history ?s2" by blast
  from t3 [of ImageError ?s3] a3
  have b3: "history (run_analysis example_files example_now ?s3) = history ?s3" by blast
  from t4 h4
  have b4: "run_analysis_try example_files example_now example_state =
          Inr (run_analysis example_files example_now example_state)" by blast
  from h1 h2 h3 h4 a1 a2 a3 b1 b2 b3 b4 show ?thesis by blast
qed

subsection \<open>Determinism\<close>

text \<open>
  Claim C7. Two analyses of the same textile and the same image give the same
  recyclability percentage, condition, carbon impact and verdict; only the time stamp
  (and the id of the row) may differ. Stated on the callback: when it succeeds twice in
  a row, at any two times, with the image file unchanged in between, although the second
  run starts from the state the first one left (a longer history, a result text), the
  two rows appended agree in every column but id and time stamp.
\<close>

theorem analysis_deterministic:
  assumes "run_analysis_try fs1 now1 st = Inr st1"
      and "run_analysis_try fs2 now2 st1 = Inr st2"
      and "image_path st = Some path" and "fs2 path = fs1 path"
  shows "\<exists>row1 row2.
           rows (history st2) = rows (history st) @ [row1, row2]
         \<and> col_textile row2 = col_textile row1
         \<and> col_recycle_percent row2 = col_recycle_percent row1
         \<and> col_condition row2 = col_condition row1
         \<and> col_carbon_impact row2 = col_carbon_impact row1
         \<and> col_verdict row2 = col_verdict row1
         \<and> col_timestamp row1 = strftime now1 \<and> col_timestamp row2 = strftime now2
         \<and> result st2 = result st1"
proof -
  from run_analysis_try_Inr [OF assms(1)] assms(3) obtain r c ci v d1
    where a1: "ai_cloth_analysis fs1 (textile_combo st) path = Inr (r, c, ci, v)"
      and i1: "insert_history (textile_combo st, r, c, ci, v, strftime now1) (history st) = Inr d1"
      and s1: "st1 = st\<lparr>result := result_text (textile_combo st) c r ci v, history := d1\<rparr>"
    by auto
  from s1 assms(3) have same: "textile_combo st1 = textile_combo st" "image_path st1 = Some path"
    by simp_all
  from ai_cloth_analysis_same_image [of fs2 path fs1 path "textile_combo st"] assms(4) a1
  have a2: "ai_cloth_analysis fs2 (textile_combo st) path = Inr (r, c, ci, v)" by simp
  from run_analysis_try_Inr [OF assms(2)] same a2 obtain d2
    where i2: "insert_history (textile_combo st, r, c, ci, v, strftime now2) (history st1) = Inr d2"
      and s2: "st2 = st1\<lparr>result := result_text (textile_combo st) c r ci v, history := d2\<rparr>"
    by auto
  from insert_history_Inr [OF i1] obtain n1
    where r1: "rows d1 = rows (history st) @
             [\<lparr>col_id = n1, col_textile = textile_combo st, col_recycle_percent = r,
               col_condition = c, col_carbon_impact = ci, col_verdict = v,
               col_timestamp = strftime now1\<rparr>]"
    by blast
  from insert_history_Inr [OF i2] obtain n2
    where r2: "rows d2 = rows (history st1) @
             [\<lparr>col_id = n2, col_textile = textile_combo st, col_recycle_percent = r,
               col_condition = c, col_carbon_impact = ci, col_verdict = v,
               col_timestamp = strftime now2\<rparr>]"
    by blast
  let ?row1 = "\<lparr>col_id = n1, col_textile = textile_combo st, col_recycle_percent = r,
               col_condition = c, col_carbon_impact = ci, col_verdict = v,
               col_timestamp = strftime now1\<rparr>"
  let ?row2 = "\<lparr>col_id = n2, col_textile = textile_combo st, col_recycle_percent = r,
               col_condition = c, col_carbon_impact = ci, col_verdict = v,
               col_timestamp = strftime now2\<rparr>"
  have "rows (history st2) = rows (history st) @ [?row1, ?row2]"
    using r1 r2 s1 s2 by simp
  moreover have "result st2 = result st1"
    using s1 s2 by simp
  ultimately have "rows (history st2) = rows (history st) @ [?row1, ?row2]
         \<and> col_textile ?row2 = col_textile ?row1
         \<and> col_recycle_percent ?row2 = col_recycle_percent ?row1
         \<and> col_condition ?row2 = col_condition ?row1
         \<and> col_carbon_impact ?row2 = col_carbon_impact ?row1
         \<and> col_verdict ?row2 = col_verdict ?row1
         \<and> col_timestamp ?row1 = strftime now1 \<and> col_timestamp ?row2 = strftime now2
         \<and> result st2 = result st1"
    by simp
  then show ?thesis by blast
qed

theorem analysis_deterministic_witness:
  "run_analysis_try example_files example_now example_state = Inr example_after
   \<and> run_analysis_try example_files example_later example_after = Inr example_after2
   \<and> image_path example_state = Some ''good.png''
   \<and> example_files ''good.png'' = example_files ''good.png''
   \<and> (\<exists>row1 row2.
           rows (history example_after2) = rows (history example_state) @ [row1, row2]
         \<and> col_textile row2 = col_textile row1
         \<and> col_recycle_percent row2 = col_recycle_percent row1
         \<and> col_condition row2 = col_condition row1
         \<and> col_carbon_impact row2 = col_carbon_impact row1
         \<and> col_verdict row2 = col_verdict row1
         \<and> col_timestamp row1 = strftime example_now
         \<and> col_timestamp row2 = strftime example_later
         \<and> result example_after2 = result example_after)"
proof -
  have p: "image_path example_state = Some ''good.png''"
    by (simp add: example_state_def)
  from analysis_deterministic [OF example_run example_run2 p refl] example_run example_run2 p
  show ?thesis by blast
qed

subsection \<open>The store\<close>

text \<open>
  Claim C8. The history is an append-only table with an auto-incrementing id and the six
  columns textile, recycle_percent, condition, carbon_impact, verdict and timestamp
  (the fields of \<open>history_row\<close>). The table is created when absent and kept as it is
  when present; \<open>upload_image\<close> does not touch it; \<open>run_analysis\<close> either leaves it
  unchanged or appends one row, whose id is greater than every id in the table and than
  every id given out before, and whose time stamp is the formatted clock reading. For
  every valid \<open>datetime\<close> with a four-digit year, that string has the shape
  \<open>YYYY-MM-DD HH:MM:SS\<close>, with nothing below the second. (That \<open>now()\<close> reads the local
  time is a property of the clock, which is a parameter here.)
\<close>

theorem history_append_only:
  assumes "1000 \<le> year now" and "year now \<le> 9999"
      and "1 \<le> month now" and "month now \<le> 12" and "1 \<le> day now" and "day now \<le> 31"
      and "hour now < 24" and "minute now < 60" and "second now < 60"
  shows "create_table None = \<lparr>rows = [], seq = 0\<rparr> \<and> create_table (Some d) = d
       \<and> history (upload_image chosen st) = history st
       \<and> (history (run_analysis fs now st) = history st
          \<or> (\<exists>row. rows (history (run_analysis fs now st)) = rows (history st) @ [row]
                \<and> (\<forall>r \<in> set (rows (history st)). col_id r < col_id row)
                \<and> seq (history st) < col_id row
                \<and> seq (history (run_analysis fs now st)) = col_id row
                \<and> col_timestamp row = strftime now))
       \<and> timestamp_format (strftime now)"
proof -
  have fmt: "timestamp_format (strftime now)"
    using assms by (intro strftime_format) simp_all
  have step: "history (run_analysis fs now st) = history st
          \<or> (\<exists>row. rows (history (run_analysis fs now st)) = rows (history st) @ [row]
                \<and> (\<forall>r \<in> set (rows (history st)). col_id r < col_id row)
                \<and> seq (history st) < col_id row
                \<and> seq (history (run_analysis fs now st)) = col_id row
                \<and> col_timestamp row = strftime now)"
  proof (cases "run_analysis_try fs now st")
    case (Inl x)
    obtain e' s' where "x = (e', s')" by (cases x)
    with Inl run_analysis_Inl [of fs now st e' s'] show ?thesis by simp
  next
    case (Inr s')
    from run_analysis_Inr [OF Inr] have eq: "run_analysis fs now st = s'" .
    from run_analysis_try_Inr [OF Inr] obtain r c ci v d'
      where i: "insert_history (textile_combo st, r, c, ci, v, strftime now) (history st) = Inr d'"
        and s: "s' = st\<lparr>result := result_text (textile_combo st) c r ci v, history := d'\<rparr>"
      by blast
    from insert_history_Inr [OF i] obtain n
      where "rows d' = rows (history st) @
             [\<lparr>col_id = n, col_textile = textile_combo st, col_recycle_percent = r,
               col_condition = c, col_carbon_impact = ci, col_verdict = v,
               col_timestamp = strftime now\<rparr>]"
        and "\<forall>x \<in> set (rows (history st)). col_id x < n"
        and "seq (history st) < n" and "seq d' = n"
      by blast
    with s eq have "\<exists>row. rows (history (run_analysis fs now st)) = rows (history st) @ [row]
                \<and> (\<forall>r \<in> set (rows (history st)). col_id r < col_id row)
                \<and> seq (history st) < col_id row
                \<and> seq (history (run_analysis fs now st)) = col_id row
                \<and> col_timestamp row = strftime now"
      by (intro exI [of _ "\<lparr>col_id = n, col_textile = textile_combo st, col_recycle_percent = r,
               col_condition = c, col_carbon_impact = ci, col_verdict = v,
               col_timestamp = strftime now\<rparr>"]) simp
    then show ?thesis ..
  qed
  from fmt step show ?thesis
    by (simp add: create_table_def upload_image_def)
qed

theorem history_append_only_witness:
  "(1000 \<le> year example_later \<and> year example_later \<le> 9999
      \<and> 1 \<le> month example_later \<and> month example_later \<le> 12
      \<and> 1 \<le> day example_later \<and> day example_later \<le> 31
      \<and> hour example_later < 24 \<and> minute example_later < 60 \<and> second example_later < 60)
   \<and> rows (history example_after) \<noteq> []
   \<and> history (run_analysis example_files example_later example_after) \<noteq> history example_after
   \<and> (\<exists>row. rows (history (run_analysis example_files example_later example_after)) =
               rows (history example_after) @ [row]
           \<and> (\<forall>r \<in> set (rows (history example_after)). col_id r < col_id row)
           \<and> seq (history example_after) < col_id row
           \<and> seq (history (run_analysis example_files example_later example_after)) = col_id row
           \<and> col_timestamp row = strftime example_later)
   \<and> strftime example_later = ''2024-03-09 07:06:00''
   \<and> timestamp_format (strftime example_later)"
proof -
  have h: "1000 \<le> year example_later" "year example_later \<le> 9999"
      "1 \<le> month example_later" "month example_later \<le> 12"
      "1 \<le> day example_later" "day example_later \<le> 31"
      "hour example_later < 24" "minute example_later < 60" "second example_later < 60"
    by (simp_all add: example_later_def)
  have ne: "rows (history example_after) \<noteq> []"
    by (simp add: example_after_def)
  have changed:
    "history (run_analysis example_files example_later example_after) \<noteq> history example_after"
    using run_analysis_Inr [OF example_run2]
    by (simp add: example_after2_def example_after_def)
  from history_append_only [OF h, of "history example_after" "''good.png''" example_after example_files]
    h ne changed strftime_later
  show ?thesis by blast
qed

end
